theory Spec2Isabelle
  imports Main
begin

section \<open>Characters and strings of the JavaScript sources\<close>

text \<open>
  Strings are lists of 8-bit characters (code units 0 to 255). The character classes are
  those of JavaScript regular expressions without the \<open>u\<close> flag, cut to that range:
  \<open>\d\<close> is \<open>0-9\<close>, \<open>\w\<close> is \<open>[A-Za-z0-9_]\<close>, \<open>\s\<close> is tab, line feed, vertical
  tab, form feed, carriage return, space and the no-break space. Under the \<open>i\<close> flag
  two characters match when their upper-case forms agree; an ASCII letter then matches
  exactly its two cases.
\<close>

definition is_digit :: "char \<Rightarrow> bool" where
  "is_digit c \<longleftrightarrow> c \<in> set ''0123456789''"

definition is_space :: "char \<Rightarrow> bool" where
  "is_space c \<longleftrightarrow> c \<in> set [CHR 0x09, CHR 0x0A, CHR 0x0B, CHR 0x0C, CHR 0x0D, CHR '' '', CHR 0xA0]"

definition is_word :: "char \<Rightarrow> bool" where
  "is_word c \<longleftrightarrow>
     c \<in> set ''abcdefghijklmnopqrstuvwxyzABCDEFGHIJKLMNOPQRSTUVWXYZ0123456789_''"

definition toLowerCase_chr :: "char \<Rightarrow> char" where
  \<comment> \<open>on the ASCII letters, the only ones the patterns below hold\<close>
  "toLowerCase_chr c =
     (case map_of (zip ''ABCDEFGHIJKLMNOPQRSTUVWXYZ'' ''abcdefghijklmnopqrstuvwxyz'') c of
        Some l \<Rightarrow> l
      | None \<Rightarrow> c)"

definition eq_ci :: "char \<Rightarrow> char \<Rightarrow> bool" where
  \<comment> \<open>an ASCII pattern character \<open>p\<close> against an input character under the \<open>i\<close> flag\<close>
  "eq_ci p c \<longleftrightarrow> toLowerCase_chr p = toLowerCase_chr c"

definition digit_val :: "char \<Rightarrow> nat" where
  "digit_val c = of_char c - 48"

definition digit_chr :: "nat \<Rightarrow> char" where
  "digit_chr d = ''0123456789'' ! d"

definition parseInt_digits :: "string \<Rightarrow> nat" where
  \<comment> \<open>\<open>parseInt\<close> on a string of decimal digits, the only strings \<open>\d{1,2}\<close> captures\<close>
  "parseInt_digits ds = foldl (\<lambda>n c. 10 * n + digit_val c) 0 ds"

fun toString_nat :: "nat \<Rightarrow> string" where
  \<comment> \<open>\<open>Number.prototype.toString\<close> on a non-negative integer\<close>
  "toString_nat n =
     (if n < 10 then [digit_chr n] else toString_nat (n div 10) @ [digit_chr (n mod 10)])"

declare toString_nat.simps [simp del]

definition padStart2 :: "string \<Rightarrow> string" where
  \<comment> \<open>\<open>s.padStart(2, '0')\<close>\<close>
  "padStart2 s = replicate (2 - length s) CHR ''0'' @ s"

section \<open>parser.js: parseTimeRange\<close>

text \<open>
  The pattern of \<open>parseTimeRange\<close> is
  \<^verbatim>\<open>/(\d{1,2})(?::(\d{2}))?\s*-\s*(\d{1,2})(?::(\d{2}))?\s*([ap])m?/i\<close>.
  Each piece is a function from the rest of the input to the list of its ways to match
  there, in the order the backtracking matcher tries them (greedy: longest first), each
  with what it captures and the input left over. The whole pattern at one position is the
  sequence of the pieces; \<open>String.prototype.match\<close> returns the first way at the first
  position that has one.
\<close>

type_synonym 'a rx = "string \<Rightarrow> ('a \<times> string) list"

definition rx_digit12 :: "string rx" where
  \<comment> \<open>\<open>(\d{1,2})\<close>: two digits first, then one\<close>
  "rx_digit12 s =
     (case s of
        [] \<Rightarrow> []
      | a # r \<Rightarrow>
          if is_digit a then
            (case r of
               [] \<Rightarrow> []
             | b # r' \<Rightarrow> if is_digit b then [([a, b], r')] else []) @ [([a], r)]
          else [])"

definition rx_opt_min :: "string option rx" where
  \<comment> \<open>\<open>(?::(\d{2}))?\<close>: the group first, then nothing (the capture is undefined)\<close>
  "rx_opt_min s =
     (case s of
        c # a # b # r \<Rightarrow>
          if c = CHR '':'' \<and> is_digit a \<and> is_digit b then [(Some [a, b], r)] else []
      | _ \<Rightarrow> []) @ [(None, s)]"

fun rx_ws :: "unit rx" where
  \<comment> \<open>\<open>\s*\<close>: as many as there are first, then fewer\<close>
  "rx_ws [] = [((), [])]"
| "rx_ws (c # r) = (if is_space c then rx_ws r else []) @ [((), c # r)]"

definition rx_dash :: "unit rx" where
  "rx_dash s = (case s of [] \<Rightarrow> [] | c # r \<Rightarrow> if c = CHR ''-'' then [((), r)] else [])"

definition rx_period :: "char rx" where
  \<comment> \<open>\<open>([ap])\<close> under the \<open>i\<close> flag\<close>
  "rx_period s =
     (case s of
        [] \<Rightarrow> []
      | c # r \<Rightarrow> if eq_ci CHR ''a'' c \<or> eq_ci CHR ''p'' c then [(c, r)] else [])"

definition rx_opt_m :: "unit rx" where
  \<comment> \<open>\<open>m?\<close> under the \<open>i\<close> flag\<close>
  "rx_opt_m s =
     (case s of [] \<Rightarrow> [] | c # r \<Rightarrow> if eq_ci CHR ''m'' c then [((), r)] else []) @ [((), s)]"

record time_match =
  m1 :: string           \<comment> \<open>\<open>match[1]\<close>\<close>
  m2 :: "string option"  \<comment> \<open>\<open>match[2]\<close>, \<open>None\<close> for undefined\<close>
  m3 :: string
  m4 :: "string option"
  m5 :: char

definition timeRange_at :: "string \<Rightarrow> time_match list" where
  "timeRange_at s =
     [\<lparr>m1 = h1, m2 = mm1, m3 = h2, m4 = mm2, m5 = p\<rparr>.
        (h1, s1) \<leftarrow> rx_digit12 s, (mm1, s2) \<leftarrow> rx_opt_min s1, (u1, s3) \<leftarrow> rx_ws s2,
        (u2, s4) \<leftarrow> rx_dash s3, (u3, s5) \<leftarrow> rx_ws s4, (h2, s6) \<leftarrow> rx_digit12 s5,
        (mm2, s7) \<leftarrow> rx_opt_min s6, (u4, s8) \<leftarrow> rx_ws s7, (p, s9) \<leftarrow> rx_period s8,
        (u5, s10) \<leftarrow> rx_opt_m s9]"

fun timeRange_match :: "string \<Rightarrow> time_match option" where
  \<comment> \<open>\<open>timeString.match(...)\<close>: every start position from the left, the end included\<close>
  "timeRange_match s =
     (case timeRange_at s of
        r # _ \<Rightarrow> Some r
      | [] \<Rightarrow> (case s of [] \<Rightarrow> None | _ # cs \<Rightarrow> timeRange_match cs))"

declare timeRange_match.simps [simp del]

definition to24h :: "nat \<Rightarrow> char \<Rightarrow> nat" where
  "to24h hour12 period =
     (if period = CHR ''a'' then (if hour12 = 12 then 0 else hour12)
      else (if hour12 = 12 then 12 else hour12 + 12))"

definition to12hLabel :: "nat \<Rightarrow> string \<Rightarrow> string" where
  "to12hLabel hour24 mn =
     (let amPm = (if hour24 \<ge> 12 then ''PM'' else ''AM'');
          hour12 = (if hour24 = 0 then 12 else if hour24 > 12 then hour24 - 12 else hour24)
      in toString_nat hour12 @ '':'' @ mn @ '' '' @ amPm)"

record hours24 =
  \<comment> \<open>the local variables of \<open>parseTimeRange\<close> when it builds its result\<close>
  startHour24 :: nat
  startMin :: string
  endHour24 :: nat
  endMin :: string

definition parseTimeRange_hours :: "string \<Rightarrow> hours24 option" where
  "parseTimeRange_hours timeString =
     (case timeRange_match timeString of
        None \<Rightarrow> None
      | Some m \<Rightarrow>
          let startHour = parseInt_digits (m1 m);
              startMin = (case m2 m of None \<Rightarrow> ''00'' | Some mm \<Rightarrow> mm);
              endHour = parseInt_digits (m3 m);
              endMin = (case m4 m of None \<Rightarrow> ''00'' | Some mm \<Rightarrow> mm);
              period = toLowerCase_chr (m5 m);
              endHour24 = to24h endHour period;
              startHour24 = to24h startHour period;
              startHour24 =
                (if startHour24 \<ge> endHour24
                 then to24h startHour (if period = CHR ''p'' then CHR ''a'' else CHR ''p'')
                 else startHour24)
          in Some \<lparr>startHour24 = startHour24, startMin = startMin,
                   endHour24 = endHour24, endMin = endMin\<rparr>)"

record TimeRange =
  startTime :: string
  endTime :: string
  startDisplay :: string
  endDisplay :: string

definition mk_TimeRange :: "hours24 \<Rightarrow> TimeRange" where
  \<comment> \<open>the object literal that \<open>parseTimeRange\<close> returns\<close>
  "mk_TimeRange h =
     \<lparr>startTime = padStart2 (toString_nat (startHour24 h)) @ '':'' @ startMin h,
      endTime = padStart2 (toString_nat (endHour24 h)) @ '':'' @ endMin h,
      startDisplay = to12hLabel (startHour24 h) (startMin h),
      endDisplay = to12hLabel (endHour24 h) (endMin h)\<rparr>"

definition parseTimeRange :: "string \<Rightarrow> TimeRange option" where
  \<comment> \<open>\<open>None\<close> is the \<open>null\<close> of an input the pattern does not match\<close>
  "parseTimeRange timeString = map_option mk_TimeRange (parseTimeRange_hours timeString)"

section \<open>parser.js: formatDateForBooking\<close>

text \<open>
  A \<open>Date\<close> is kept by its local calendar fields and the milliseconds since its local
  midnight; \<open>month\<close> is 0-based as in JavaScript. Two dates compare by their time
  values, here the milliseconds since the local midnight that starts year 0 of the
  proleptic Gregorian calendar.
\<close>

record js_date =
  year :: nat
  month :: nat
  day :: nat
  msOfDay :: nat

definition leap_year :: "nat \<Rightarrow> bool" where
  "leap_year y \<longleftrightarrow> (y mod 4 = 0 \<and> y mod 100 \<noteq> 0) \<or> y mod 400 = 0"

definition days_in_month :: "nat \<Rightarrow> nat \<Rightarrow> nat" where
  "days_in_month y m =
     (if m = 1 then (if leap_year y then 29 else 28)
      else [31, 28, 31, 30, 31, 30, 31, 31, 30, 31, 30, 31] ! m)"

definition day_number :: "nat \<Rightarrow> nat \<Rightarrow> nat \<Rightarrow> int" where
  \<comment> \<open>days from 1 January of year 0 to day \<open>d\<close> (which may run past the month's end) of
      month \<open>m < 12\<close> of year \<open>y\<close>\<close>
  "day_number y m d =
     365 * int y + int ((y + 3) div 4) - int ((y + 99) div 100) + int ((y + 399) div 400)
     + int ([0, 31, 59, 90, 120, 151, 181, 212, 243, 273, 304, 334] ! m)
     + (if leap_year y \<and> m \<ge> 2 then 1 else 0)
     + int d - 1"

definition time_value :: "js_date \<Rightarrow> int" where
  "time_value d = day_number (year d) (month d) (day d) * 86400000 + int (msOfDay d)"

definition date_lt :: "js_date \<Rightarrow> js_date \<Rightarrow> bool" where
  \<comment> \<open>\<open>a < b\<close> on two \<open>Date\<close> objects\<close>
  "date_lt a b \<longleftrightarrow> time_value a < time_value b"

definition setFullYear :: "js_date \<Rightarrow> nat \<Rightarrow> js_date" where
  \<comment> \<open>29 February carried into a common year becomes 1 March\<close>
  "setFullYear d y =
     (if month d = 1 \<and> day d = 29 \<and> \<not> leap_year y then d\<lparr>year := y, month := 2, day := 1\<rparr>
      else d\<lparr>year := y\<rparr>)"

fun split_on :: "char \<Rightarrow> string \<Rightarrow> string list" where
  \<comment> \<open>\<open>s.split(c)\<close>\<close>
  "split_on c [] = [[]]"
| "split_on c (x # xs) =
     (if x = c then [] # split_on c xs
      else (case split_on c xs of p # ps \<Rightarrow> (x # p) # ps | [] \<Rightarrow> [[x]]))"

definition parseInt :: "string \<Rightarrow> nat option" where
  \<comment> \<open>\<open>parseInt\<close> on a string that starts with a decimal digit: the value of its longest
      prefix of digits; \<open>None\<close> on every other string (no digit gives \<open>NaN\<close> in
      JavaScript; leading white space and signs are not covered here)\<close>
  "parseInt s =
     (case takeWhile is_digit s of [] \<Rightarrow> None | ds \<Rightarrow> Some (parseInt_digits ds))"

definition formatDateForBooking :: "js_date \<Rightarrow> string \<Rightarrow> js_date option" where
  \<comment> \<open>\<open>now\<close> is the clock; the two \<open>new Date()\<close> read the same instant here. \<open>None\<close>
      stands for the inputs outside this model: a part that is not a number, or a month
      and day that are no calendar date of the current year (JavaScript carries those over
      into the next month or year)\<close>
  "formatDateForBooking now dateString =
     (case map parseInt (split_on CHR ''/'' dateString) of
        Some mo # Some dy # _ \<Rightarrow>
          let currentYear = year now in
          if 1 \<le> mo \<and> mo \<le> 12 \<and> 1 \<le> dy \<and> dy \<le> days_in_month currentYear (mo - 1) then
            let gameDate = \<lparr>year = currentYear, month = mo - 1, day = dy, msOfDay = 0\<rparr>
            in Some (if date_lt gameDate now then setFullYear gameDate (currentYear + 1)
                     else gameDate)
          else None
      | _ \<Rightarrow> None)"

section \<open>Scraped records\<close>

text \<open>
  What \<open>_getAllSlotButtons\<close> and \<open>_getAllUnavailableSlots\<close> collect for each element,
  without the fields kept for the log only. A missing attribute is the empty string
  (\<open>getAttribute(...) || ''\<close>). \<open>_getSlotStatus\<close> reads the same attributes from the
  page directly.
\<close>

record SlotCandidate =
  index :: nat
  ariaLabel :: string
  dataHref :: string
  href :: string
  onclick :: string
  textContent :: string   \<comment> \<open>the field \<open>text\<close>\<close>
  parentAriaLabel :: string
  parentDataTime :: string
  parentDataHref :: string

record UnavailableIndicator =
  dataTime :: string
  uParentAriaLabel :: string
  uParentDataTime :: string

datatype slot_status = unavailable | available | unknown | error

section \<open>Pattern pieces of the booking module\<close>

fun rx_lit :: "(char \<Rightarrow> char \<Rightarrow> bool) \<Rightarrow> string \<Rightarrow> unit rx" where
  \<comment> \<open>a run of literal characters, compared by \<open>eq\<close> (\<open>(=)\<close>, or \<open>eq_ci\<close> under the \<open>i\<close> flag)\<close>
  "rx_lit eq [] s = [((), s)]"
| "rx_lit eq (p # ps) [] = []"
| "rx_lit eq (p # ps) (c # r) = (if eq p c then rx_lit eq ps r else [])"

definition rx_eof :: "unit rx" where
  \<comment> \<open>\<open>$\<close> without the \<open>m\<close> flag\<close>
  "rx_eof s = (if s = [] then [((), s)] else [])"

fun search_from :: "(string \<Rightarrow> string \<Rightarrow> bool) \<Rightarrow> string \<Rightarrow> string \<Rightarrow> bool" where
  \<comment> \<open>\<open>regex.test(text)\<close> of a pattern without the \<open>g\<close> flag: \<open>pat behind rest\<close> says whether
      the pattern matches at the position that has \<open>rest\<close> ahead and, behind it, the
      characters of \<open>behind\<close> (nearest first); every position is tried, the end included\<close>
  "search_from pat behind [] = pat behind []"
| "search_from pat behind (c # r) = (pat behind (c # r) \<or> search_from pat (c # behind) r)"

definition regex_test :: "(string \<Rightarrow> string \<Rightarrow> bool) \<Rightarrow> string \<Rightarrow> bool" where
  "regex_test pat txt = search_from pat [] txt"

definition str_includes :: "string \<Rightarrow> string \<Rightarrow> bool" where
  \<comment> \<open>\<open>txt.includes(p)\<close>\<close>
  "str_includes txt p = regex_test (\<lambda>behind rest. rx_lit (=) p rest \<noteq> []) txt"

section \<open>The booking module with centralised time matching\<close>

text \<open>
  This is the variant of the booking module whose matchers are \<open>_slotMatchesTime\<close> and
  \<open>_unavailableMatchesTime\<close>, and whose navigation is \<open>_navigateSchedulerToDate\<close>.

  \<open>_buildTimeMatchData\<close> computes five values and four patterns from a time range. The
  patterns are functions of the five values here. The minute text is spliced into the
  patterns as it is, so the model covers start times whose hour and minute parts are
  texts of digits, which is what \<open>parseTimeRange\<close> produces; \<open>None\<close> stands for every
  other start time.
\<close>

record MatchData =
  md_startHour24 :: nat
  displayHour :: nat
  amPm :: string
  md_startMin :: string
  timeLabel :: string

definition buildTimeMatchData :: "TimeRange \<Rightarrow> MatchData option" where
  "buildTimeMatchData timeRange =
     (let parts = split_on CHR '':'' (startTime timeRange) in
      case parseInt (hd parts) of
        None \<Rightarrow> None
      | Some h \<Rightarrow>
          let startHour24 = h;
              startMin = (case tl parts of [] \<Rightarrow> ''00'' | mn # _ \<Rightarrow> if mn = [] then ''00'' else mn);
              displayHour = (if startHour24 = 0 then 12
                             else if startHour24 > 12 then startHour24 - 12
                             else startHour24);
              amPm = (if startHour24 \<ge> 12 then ''PM'' else ''AM'')
          in if list_all is_digit (hd parts) \<and> list_all is_digit startMin then
               Some \<lparr>md_startHour24 = startHour24, displayHour = displayHour, amPm = amPm,
                     md_startMin = startMin,
                     timeLabel = toString_nat displayHour @ '':'' @ startMin @ '' '' @ amPm\<rparr>
             else None)"

definition urlDisplayPattern :: "MatchData \<Rightarrow> string \<Rightarrow> bool" where
  \<comment> \<open>\<^verbatim>\<open>new RegExp(`%20${displayHour}:${startMin}%20${amPm}`, 'i')\<close>\<close>
  "urlDisplayPattern md =
     regex_test (\<lambda>behind rest.
       rx_lit eq_ci (''%20'' @ toString_nat (displayHour md) @ '':'' @ md_startMin md
                     @ ''%20'' @ amPm md) rest \<noteq> [])"

definition url24hPattern :: "MatchData \<Rightarrow> string \<Rightarrow> bool" where
  \<comment> \<open>\<^verbatim>\<open>new RegExp(`%20${startHour24}:${startMin}(?:%20|&|$)`, 'i')\<close>\<close>
  "url24hPattern md =
     regex_test (\<lambda>behind rest.
       [u. (u1, s1) \<leftarrow> rx_lit eq_ci (''%20'' @ toString_nat (md_startHour24 md) @ '':''
                                       @ md_startMin md) rest,
           (u, s2) \<leftarrow> rx_lit eq_ci ''%20'' s1 @ rx_lit eq_ci ''&'' s1 @ rx_eof s1] \<noteq> [])"

definition lookbehind_to :: "string \<Rightarrow> bool" where
  \<comment> \<open>\<open>to\s\<close> read backwards from the position, under the \<open>i\<close> flag\<close>
  "lookbehind_to behind =
     (case behind of
        c3 # c2 # c1 # _ \<Rightarrow> eq_ci CHR ''t'' c1 \<and> eq_ci CHR ''o'' c2 \<and> is_space c3
      | _ \<Rightarrow> False)"

definition start_label :: "MatchData \<Rightarrow> unit rx" where
  \<comment> \<open>\<^verbatim>\<open>${displayHour}:${startMin}\s*${amPm}\<close> under the \<open>i\<close> flag\<close>
  "start_label md s =
     [u. (u1, s1) \<leftarrow> rx_lit eq_ci (toString_nat (displayHour md) @ '':'' @ md_startMin md) s,
         (u2, s2) \<leftarrow> rx_ws s1, u \<leftarrow> rx_lit eq_ci (amPm md) s2]"

definition strictStartTimeRegex :: "MatchData \<Rightarrow> string \<Rightarrow> bool" where
  \<comment> \<open>\<^verbatim>\<open>new RegExp(`(?:^|[^\d])(?<!to\s)${displayHour}:${startMin}\s*${amPm}`, 'i')\<close>:
      either the position is the start of the text, or one character that is no digit is
      consumed; the look-behind is then checked where the label is to start\<close>
  "strictStartTimeRegex md =
     regex_test (\<lambda>behind rest.
       (behind = [] \<and> \<not> lookbehind_to behind \<and> start_label md rest \<noteq> []) \<or>
       (case rest of
          [] \<Rightarrow> False
        | c # r \<Rightarrow> \<not> is_digit c \<and> \<not> lookbehind_to (c # behind) \<and> start_label md r \<noteq> []))"

definition exactTimeRegex :: "MatchData \<Rightarrow> string \<Rightarrow> bool" where
  \<comment> \<open>\<^verbatim>\<open>new RegExp(`^\s*${displayHour}:${startMin}\s*${amPm}\s*$`, 'i')\<close>\<close>
  "exactTimeRegex md =
     regex_test (\<lambda>behind rest.
       behind = [] \<and>
       [u. (u1, s1) \<leftarrow> rx_ws rest, (u2, s2) \<leftarrow> start_label md s1, (u3, s3) \<leftarrow> rx_ws s2,
           u \<leftarrow> rx_eof s3] \<noteq> [])"

definition slotMatchesTime :: "SlotCandidate \<Rightarrow> MatchData \<Rightarrow> bool" where
  "slotMatchesTime slotData matchData \<longleftrightarrow>
     list_ex (\<lambda>urlToCheck. urlToCheck \<noteq> [] \<and>
                (urlDisplayPattern matchData urlToCheck \<or> url24hPattern matchData urlToCheck))
       [dataHref slotData, href slotData, parentDataHref slotData, onclick slotData]
     \<or> list_ex (\<lambda>label. label \<noteq> [] \<and> strictStartTimeRegex matchData label)
          [ariaLabel slotData, parentAriaLabel slotData]
     \<or> (parentDataTime slotData \<noteq> [] \<and> exactTimeRegex matchData (parentDataTime slotData))
     \<or> (textContent slotData \<noteq> []
          \<and> strictStartTimeRegex matchData (textContent slotData))"

definition unavailableMatchesTime :: "UnavailableIndicator \<Rightarrow> MatchData \<Rightarrow> bool" where
  "unavailableMatchesTime unavailData matchData \<longleftrightarrow>
     (dataTime unavailData \<noteq> [] \<and> exactTimeRegex matchData (dataTime unavailData))
     \<or> (uParentDataTime unavailData \<noteq> []
          \<and> exactTimeRegex matchData (uParentDataTime unavailData))
     \<or> (uParentAriaLabel unavailData \<noteq> []
          \<and> strictStartTimeRegex matchData (uParentAriaLabel unavailData))
     \<or> list_ex (\<lambda>field. field \<noteq> [] \<and>
                  (urlDisplayPattern matchData field \<or> url24hPattern matchData field))
          [dataTime unavailData, uParentAriaLabel unavailData, uParentDataTime unavailData]"

definition checkAvailability_status ::
  "MatchData \<Rightarrow> SlotCandidate list \<Rightarrow> UnavailableIndicator list \<Rightarrow> slot_status" where
  \<comment> \<open>the \<open>status\<close> that \<open>checkAvailability\<close> returns when nothing throws\<close>
  "checkAvailability_status matchData allSlots unavailableSlots =
     (if list_ex (\<lambda>s. unavailableMatchesTime s matchData) unavailableSlots then unavailable
      else if list_ex (\<lambda>s. slotMatchesTime s matchData) allSlots then available
      else unknown)"

datatype slot_choice = AlreadyBooked | SlotNotFound | ClickSlot nat

fun targetSlotIndex :: "MatchData \<Rightarrow> SlotCandidate list \<Rightarrow> int" where
  \<comment> \<open>step 8 of \<open>bookCourt\<close>: \<open>-1\<close>, or the \<open>index\<close> field of the slot at which the loop breaks\<close>
  "targetSlotIndex matchData [] = - 1"
| "targetSlotIndex matchData (slot # rest) =
     (if slotMatchesTime slot matchData then int (index slot)
      else targetSlotIndex matchData rest)"

definition bookCourt_choice ::
  "MatchData \<Rightarrow> SlotCandidate list \<Rightarrow> UnavailableIndicator list \<Rightarrow> slot_choice" where
  \<comment> \<open>steps 7 to 9 of \<open>bookCourt\<close>: what it does about the slot\<close>
  "bookCourt_choice matchData allSlots unavailableSlots =
     (if list_ex (\<lambda>s. unavailableMatchesTime s matchData) unavailableSlots then AlreadyBooked
      else let idx = targetSlotIndex matchData allSlots
           in if idx = - 1 then SlotNotFound else ClickSlot (nat idx))"

subsection \<open>Directed navigation of the scheduler\<close>

definition MONTH_NAMES :: "string list" where
  "MONTH_NAMES = [''January'', ''February'', ''March'', ''April'', ''May'', ''June'',
                  ''July'', ''August'', ''September'', ''October'', ''November'', ''December'']"

definition buildDatePatterns :: "js_date \<Rightarrow> string list" where
  "buildDatePatterns gameDate =
     (let dy = toString_nat (day gameDate);
          monthName = MONTH_NAMES ! month gameDate;
          monthShort = take 3 monthName;
          yr = toString_nat (year gameDate)
      in [monthName @ '' '' @ dy @ '', '' @ yr,
          monthName @ '' '' @ dy @ '' '' @ yr,
          monthShort @ '' '' @ dy @ '', '' @ yr,
          monthName @ '' '' @ dy @ '','',
          monthShort @ '' '' @ dy @ '',''])"

definition dateTextMatches :: "string \<Rightarrow> string list \<Rightarrow> bool" where
  "dateTextMatches txt patterns = list_ex (\<lambda>p. str_includes txt p) patterns"

fun rx_word_plus :: "string rx" where
  \<comment> \<open>\<open>(\w+)\<close>, longest first\<close>
  "rx_word_plus [] = []"
| "rx_word_plus (c # r) =
     (if is_word c then map (\<lambda>(w, r'). (c # w, r')) (rx_word_plus r) @ [([c], r)] else [])"

definition rx_ws1 :: "unit rx" where
  \<comment> \<open>\<open>\s+\<close>\<close>
  "rx_ws1 s = (case s of [] \<Rightarrow> [] | c # r \<Rightarrow> if is_space c then rx_ws r else [])"

definition rx_opt_comma :: "unit rx" where
  \<comment> \<open>\<open>,?\<close>\<close>
  "rx_opt_comma s =
     (case s of [] \<Rightarrow> [] | c # r \<Rightarrow> if c = CHR '','' then [((), r)] else []) @ [((), s)]"

definition rx_digit4 :: "string rx" where
  \<comment> \<open>\<open>(\d{4})\<close>\<close>
  "rx_digit4 s =
     (case s of
        a # b # c # d # r \<Rightarrow>
          if is_digit a \<and> is_digit b \<and> is_digit c \<and> is_digit d then [([a, b, c, d], r)] else []
      | _ \<Rightarrow> [])"

definition toolbar_at :: "string \<Rightarrow> (string \<times> string \<times> string) list" where
  \<comment> \<open>\<^verbatim>\<open>/(\w+)\s+(\d{1,2}),?\s+(\d{4})/\<close> at one position, with its three captures\<close>
  "toolbar_at s =
     [(w, d, y).
        (w, s1) \<leftarrow> rx_word_plus s, (u1, s2) \<leftarrow> rx_ws1 s1, (d, s3) \<leftarrow> rx_digit12 s2,
        (u2, s4) \<leftarrow> rx_opt_comma s3, (u3, s5) \<leftarrow> rx_ws1 s4, (y, s6) \<leftarrow> rx_digit4 s5]"

fun toolbar_match :: "string \<Rightarrow> (string \<times> string \<times> string) option" where
  "toolbar_match s =
     (case toolbar_at s of
        r # _ \<Rightarrow> Some r
      | [] \<Rightarrow> (case s of [] \<Rightarrow> None | _ # cs \<Rightarrow> toolbar_match cs))"

declare toolbar_match.simps [simp del]

fun findIndex :: "('a \<Rightarrow> bool) \<Rightarrow> 'a list \<Rightarrow> nat option" where
  \<comment> \<open>\<open>Array.prototype.findIndex\<close>, \<open>None\<close> for \<open>-1\<close>\<close>
  "findIndex P [] = None"
| "findIndex P (x # xs) = (if P x then Some 0 else map_option Suc (findIndex P xs))"

definition parseDateFromToolbar :: "string \<Rightarrow> int option" where
  \<comment> \<open>the time value of the \<open>Date\<close> it returns, \<open>None\<close> for \<open>null\<close>. The \<open>Date\<close> constructor
      reads a year from 0 to 99 as 1900 plus that year, and carries a day past the end of
      the month into the next one, as \<open>day_number\<close> does\<close>
  "parseDateFromToolbar txt =
     (case toolbar_match txt of
        None \<Rightarrow> None
      | Some (w, d, y) \<Rightarrow>
          (case findIndex (\<lambda>n. rx_lit (=) (take 3 w) n \<noteq> []) MONTH_NAMES of
             None \<Rightarrow> None
           | Some monthIdx \<Rightarrow>
               let yr = parseInt_digits y; yr = (if yr \<le> 99 then 1900 + yr else yr)
               in Some (day_number yr monthIdx (parseInt_digits d) * 86400000)))"

datatype direction = Next | Prev

record scheduler =
  \<comment> \<open>the remote page as the loop sees it: the toolbar text at the \<open>k\<close>-th reading (the empty
      string when it cannot be read), and whether the click of the \<open>k\<close>-th round throws\<close>
  dateText :: "nat \<Rightarrow> string"
  click_throws :: "nat \<Rightarrow> direction \<Rightarrow> bool"

record nav_result =
  confirmed :: bool          \<comment> \<open>returned from inside the loop, on the correct date; when
                                 false, the loop was left and the warning is logged\<close>
  rounds :: nat              \<comment> \<open>loop bodies entered\<close>
  clicks :: "direction list" \<comment> \<open>clicks issued, the failing one included\<close>

definition step_direction :: "js_date \<Rightarrow> string \<Rightarrow> direction" where
  \<comment> \<open>\<^verbatim>\<open>(!currentDate || currentDate < gameDate) ? 'next' : 'prev'\<close>\<close>
  "step_direction gameDate currentDateText =
     (case parseDateFromToolbar currentDateText of
        None \<Rightarrow> Next
      | Some t \<Rightarrow> if t < time_value gameDate then Next else Prev)"

function navigate_loop :: "scheduler \<Rightarrow> js_date \<Rightarrow> nat \<Rightarrow> direction list \<Rightarrow> nav_result" where
  "navigate_loop page gameDate attempts cs =
     (if attempts < 90 then
        let currentDateText = dateText page attempts in
        if dateTextMatches currentDateText (buildDatePatterns gameDate) then
          \<lparr>confirmed = True, rounds = attempts + 1, clicks = cs\<rparr>
        else
          let dir = step_direction gameDate currentDateText
          in if click_throws page attempts dir then
               \<lparr>confirmed = False, rounds = attempts + 1, clicks = cs @ [dir]\<rparr>
             else navigate_loop page gameDate (attempts + 1) (cs @ [dir])
      else \<lparr>confirmed = False, rounds = attempts, clicks = cs\<rparr>)"
  by pat_completeness auto
termination
  by (relation "measure (\<lambda>(page, gameDate, attempts, cs). 90 - attempts)") auto

declare navigate_loop.simps [simp del]

definition navigateSchedulerToDate :: "scheduler \<Rightarrow> js_date \<Rightarrow> nav_result" where
  "navigateSchedulerToDate page gameDate = navigate_loop page gameDate 0 []"

section \<open>The booking module with session retry\<close>

text \<open>
  This is the variant of the booking module with \<open>MAX_RETRIES\<close>, \<open>_doBookCourt\<close> and
  \<open>_getSlotStatus\<close>.

  \<open>_getSlotStatus\<close> runs in the page. Its three patterns are built without the \<open>i\<close>
  flag, from the hour alone (the minutes are always \<open>00\<close>, and hour 0 stays 0). The
  \<open>checkAvailability\<close> of \<open>src/booking.js\<close> holds the same code inline.
\<close>

definition is_word_at :: "string \<Rightarrow> bool" where
  "is_word_at s = (case s of [] \<Rightarrow> False | c # _ \<Rightarrow> is_word c)"

definition word_boundary :: "string \<Rightarrow> string \<Rightarrow> bool" where
  \<comment> \<open>\<open>\b\<close>: a word character on exactly one side of the position\<close>
  "word_boundary behind rest \<longleftrightarrow> is_word_at behind \<noteq> is_word_at rest"

definition hourLabel :: "nat \<Rightarrow> string \<Rightarrow> string" where
  \<comment> \<open>\<^verbatim>\<open>${displayHour}:00<sep>${amPm}\<close> for the two locals of \<open>_getSlotStatus\<close>\<close>
  "hourLabel targetHour24 sep =
     (let displayHour = (if targetHour24 > 12 then targetHour24 - 12 else targetHour24);
          amPm = (if targetHour24 \<ge> 12 then ''PM'' else ''AM'')
      in toString_nat displayHour @ '':00'' @ sep @ amPm)"

definition exactHourRegex :: "nat \<Rightarrow> string \<Rightarrow> bool" where
  \<comment> \<open>\<^verbatim>\<open>new RegExp(`\\b${displayHour}:00 ${amPm}\\b`)\<close>\<close>
  "exactHourRegex targetHour24 =
     regex_test (\<lambda>behind rest.
       word_boundary behind rest \<and>
       list_ex (\<lambda>(u, s1). word_boundary (rev (hourLabel targetHour24 '' '') @ behind) s1)
         (rx_lit (=) (hourLabel targetHour24 '' '') rest))"

definition exactHourUrlRegex :: "nat \<Rightarrow> string \<Rightarrow> bool" where
  \<comment> \<open>\<^verbatim>\<open>new RegExp(`%20${displayHour}:00%20${amPm}`)\<close>\<close>
  "exactHourUrlRegex targetHour24 =
     regex_test (\<lambda>behind rest. rx_lit (=) (''%20'' @ hourLabel targetHour24 ''%20'') rest \<noteq> [])"

definition exact24hUrlRegex :: "nat \<Rightarrow> string \<Rightarrow> bool" where
  \<comment> \<open>\<^verbatim>\<open>new RegExp(`%20${targetHour24}:00%20`)\<close>\<close>
  "exact24hUrlRegex targetHour24 =
     regex_test (\<lambda>behind rest.
       rx_lit (=) (''%20'' @ toString_nat targetHour24 @ '':00%20'') rest \<noteq> [])"

definition noneAvailable_hit :: "nat \<Rightarrow> UnavailableIndicator \<Rightarrow> bool" where
  "noneAvailable_hit targetHour24 slot \<longleftrightarrow>
     exactHourRegex targetHour24 (dataTime slot) \<or>
     exactHourRegex targetHour24 (uParentAriaLabel slot) \<or>
     exactHourRegex targetHour24 (uParentDataTime slot) \<or>
     exactHourUrlRegex targetHour24 (dataTime slot) \<or>
     exactHourUrlRegex targetHour24 (uParentAriaLabel slot) \<or>
     exactHourUrlRegex targetHour24 (uParentDataTime slot)"

definition reserveButton_hit :: "nat \<Rightarrow> SlotCandidate \<Rightarrow> bool" where
  "reserveButton_hit targetHour24 b \<longleftrightarrow>
     exactHourRegex targetHour24 (ariaLabel b) \<or>
     exactHourUrlRegex targetHour24 (dataHref b) \<or>
     exact24hUrlRegex targetHour24 (dataHref b)"

fun noneAvailable_loop :: "nat \<Rightarrow> UnavailableIndicator list \<Rightarrow> bool" where
  \<comment> \<open>whether the first \<open>for\<close> loop returns \<open>'unavailable'\<close>\<close>
  "noneAvailable_loop targetHour24 [] = False"
| "noneAvailable_loop targetHour24 (slot # rest) =
     (if noneAvailable_hit targetHour24 slot then True
      else noneAvailable_loop targetHour24 rest)"

fun reserveButtons_loop :: "nat \<Rightarrow> SlotCandidate list \<Rightarrow> bool" where
  \<comment> \<open>whether the second \<open>for\<close> loop returns \<open>'available'\<close>\<close>
  "reserveButtons_loop targetHour24 [] = False"
| "reserveButtons_loop targetHour24 (b # rest) =
     (if reserveButton_hit targetHour24 b then True
      else reserveButtons_loop targetHour24 rest)"

definition getSlotStatus ::
  "nat \<Rightarrow> UnavailableIndicator list \<Rightarrow> SlotCandidate list \<Rightarrow> slot_status" where
  \<comment> \<open>\<open>noneAvailable\<close> and \<open>reserveButtons\<close> are the two \<open>querySelectorAll\<close> results\<close>
  "getSlotStatus targetHour24 noneAvailable reserveButtons =
     (if noneAvailable_loop targetHour24 noneAvailable then unavailable
      else if reserveButtons_loop targetHour24 reserveButtons then available
      else unknown)"

text \<open>
  \<open>_doBookCourt\<close> walks the element handles of the reserve buttons. Every call on a
  handle can throw (the element may have left the page), and the \<open>try\<close> around the loop
  body drops what is thrown and goes on with the next handle.
\<close>

record ReserveButton =
  button :: SlotCandidate
  getAttribute_throws :: bool
  click_fails :: bool   \<comment> \<open>\<open>scrollIntoViewIfNeeded\<close> or \<open>click\<close> throws\<close>

definition doBook_matchesTime :: "nat \<Rightarrow> SlotCandidate \<Rightarrow> bool" where
  \<comment> \<open>\<open>matchesTime\<close>, with \<open>hour24\<close> for the local \<open>startHour24\<close>; \<open>timeLabel\<close> is
      \<open>hourLabel hour24 '' ''\<close>\<close>
  "doBook_matchesTime hour24 b \<longleftrightarrow>
     str_includes (ariaLabel b) (hourLabel hour24 '' '') \<or>
     exactHourUrlRegex hour24 (dataHref b)"

fun reserveButtons_click :: "nat \<Rightarrow> nat \<Rightarrow> ReserveButton list \<Rightarrow> nat option" where
  \<comment> \<open>the position, counted from \<open>i\<close>, of the handle whose click sets \<open>timeSlotClicked\<close>;
      \<open>None\<close> when the loop ends with \<open>timeSlotClicked\<close> still false\<close>
  "reserveButtons_click hour24 i [] = None"
| "reserveButtons_click hour24 i (b # rest) =
     (if getAttribute_throws b then reserveButtons_click hour24 (i + 1) rest
      else if doBook_matchesTime hour24 (button b) then
        (if click_fails b then reserveButtons_click hour24 (i + 1) rest else Some i)
      else reserveButtons_click hour24 (i + 1) rest)"

subsection \<open>The retry loop of bookCourt and checkAvailability\<close>

text \<open>
  Both methods run the same loop around their attempt (\<open>_doBookCourt\<close>,
  \<open>_doCheckAvailability\<close>) and differ in the object they return after the last failure.
  What an attempt does depends on the remote page, so the environment says, for each
  attempt number, whether \<open>initialize\<close> throws and what the attempt returns or throws.
  \<open>close\<close> swallows its own errors. The loop records what it calls.
\<close>

definition MAX_RETRIES :: nat where
  "MAX_RETRIES = 2"

datatype 'a attempt = Returns 'a | Throws string

record 'a session_env =
  initialize_throws :: "nat \<Rightarrow> string option"
  run_attempt :: "nat \<Rightarrow> 'a attempt"

datatype call = Close | Initialize | Attempt nat | Screenshot

function retry_loop ::
  "'a session_env \<Rightarrow> (string \<Rightarrow> 'a) \<Rightarrow> nat \<Rightarrow> call list \<Rightarrow> 'a option \<times> call list" where
  \<comment> \<open>\<open>None\<close> is the \<open>undefined\<close> of leaving the loop without a \<open>return\<close>\<close>
  "retry_loop env failure attempt calls =
     (if attempt \<le> MAX_RETRIES then
        let calls1 = (if attempt > 1 then calls @ [Close, Initialize] else calls);
            started = (if attempt > 1 then initialize_throws env attempt else None);
            calls2 = (if started = None then calls1 @ [Attempt attempt] else calls1);
            outcome = (case started of None \<Rightarrow> run_attempt env attempt | Some msg \<Rightarrow> Throws msg)
        in case outcome of
             Returns r \<Rightarrow> (Some r, calls2)
           | Throws msg \<Rightarrow>
               if attempt = MAX_RETRIES then (Some (failure msg), calls2 @ [Screenshot])
               else retry_loop env failure (attempt + 1) calls2
      else (None, calls))"
  by pat_completeness auto
termination
  by (relation "measure (\<lambda>(env, failure, attempt, calls). MAX_RETRIES + 1 - attempt)") auto

declare retry_loop.simps [simp del]

record BookingOutcome =
  \<comment> \<open>a field that the returned object does not have is \<open>False\<close> or \<open>None\<close>\<close>
  success :: bool
  alreadyBooked :: bool
  message :: "string option"
  bookingError :: "string option"   \<comment> \<open>the field \<open>error\<close>\<close>

record AvailabilityOutcome =
  status :: slot_status
  checkedLabel :: "string option"   \<comment> \<open>the field \<open>timeLabel\<close>\<close>
  checkError :: "string option"     \<comment> \<open>the field \<open>error\<close>\<close>

definition bookCourt :: "BookingOutcome session_env \<Rightarrow> BookingOutcome option \<times> call list" where
  "bookCourt env =
     retry_loop env
       (\<lambda>msg. \<lparr>success = False, alreadyBooked = False, message = None, bookingError = Some msg\<rparr>)
       1 []"

definition checkAvailability ::
  "AvailabilityOutcome session_env \<Rightarrow> AvailabilityOutcome option \<times> call list" where
  "checkAvailability env =
     retry_loop env (\<lambda>msg. \<lparr>status = error, checkedLabel = None, checkError = Some msg\<rparr>) 1 []"

section \<open>Properties of a parsed time range\<close>

definition start_before_end :: "string \<Rightarrow> bool" where
  \<comment> \<open>the input is parsed, and to a start hour below the end hour\<close>
  "start_before_end timeString =
     (case parseTimeRange_hours timeString of
        None \<Rightarrow> False
      | Some h \<Rightarrow> startHour24 h < endHour24 h)"

definition minute_text :: "string \<Rightarrow> bool" where
  "minute_text mn \<longleftrightarrow> length mn = 2 \<and> list_all is_digit mn"

definition timeRange_invariant :: "hours24 \<Rightarrow> bool" where
  \<comment> \<open>hours from 0 to 23, minutes from \<open>00\<close> to \<open>59\<close>\<close>
  "timeRange_invariant h \<longleftrightarrow>
     startHour24 h \<le> 23 \<and> endHour24 h \<le> 23 \<and>
     minute_text (startMin h) \<and> parseInt_digits (startMin h) \<le> 59 \<and>
     minute_text (endMin h) \<and> parseInt_digits (endMin h) \<le> 59"

section \<open>Properties of the booking flows\<close>

definition first_at :: "('a \<Rightarrow> bool) \<Rightarrow> 'a list \<Rightarrow> nat \<Rightarrow> bool" where
  \<comment> \<open>\<open>i\<close> is the lowest position of \<open>xs\<close> whose element satisfies \<open>P\<close>\<close>
  "first_at P xs i \<longleftrightarrow> i < length xs \<and> P (xs ! i) \<and> (\<forall>j<i. \<not> P (xs ! j))"

definition scraped :: "SlotCandidate list \<Rightarrow> bool" where
  \<comment> \<open>\<open>_getAllSlotButtons\<close> numbers the elements in document order, from 0\<close>
  "scraped allSlots \<longleftrightarrow> map index allSlots = [0..<length allSlots]"

definition clickable :: "nat \<Rightarrow> ReserveButton \<Rightarrow> bool" where
  \<comment> \<open>the handle matches the hour and none of the calls on it throws\<close>
  "clickable hour24 b \<longleftrightarrow>
     \<not> getAttribute_throws b \<and> doBook_matchesTime hour24 (button b) \<and> \<not> click_fails b"

definition attempts_made :: "call list \<Rightarrow> nat" where
  "attempts_made calls =
     length (filter (\<lambda>c. case c of Attempt n \<Rightarrow> True | _ \<Rightarrow> False) calls)"

definition never_matches :: "scheduler \<Rightarrow> js_date \<Rightarrow> bool" where
  \<comment> \<open>none of the 90 readings shows the target date\<close>
  "never_matches page gameDate \<longleftrightarrow>
     (\<forall>k<90. \<not> dateTextMatches (dateText page k) (buildDatePatterns gameDate))"

section \<open>Evaluation rules\<close>

lemmas char_eval = is_digit_def is_space_def is_word_def eq_ci_def toLowerCase_chr_def
  digit_val_def digit_chr_def parseInt_digits_def toString_nat.simps

lemmas parse_eval = parseTimeRange_def parseTimeRange_hours_def timeRange_match.simps
  timeRange_at_def rx_digit12_def rx_opt_min_def rx_dash_def rx_period_def rx_opt_m_def
  to24h_def mk_TimeRange_def to12hLabel_def padStart2_def Let_def

lemmas date_eval = formatDateForBooking_def split_on.simps parseInt_def date_lt_def
  time_value_def day_number_def leap_year_def days_in_month_def setFullYear_def Let_def

lemmas booking_eval = buildTimeMatchData_def urlDisplayPattern_def url24hPattern_def
  lookbehind_to_def start_label_def strictStartTimeRegex_def exactTimeRegex_def
  slotMatchesTime_def unavailableMatchesTime_def checkAvailability_status_def
  regex_test_def rx_eof_def parseInt_def str_includes_def is_word_at_def word_boundary_def
  hourLabel_def exactHourRegex_def exactHourUrlRegex_def exact24hUrlRegex_def
  noneAvailable_hit_def reserveButton_hit_def getSlotStatus_def doBook_matchesTime_def
  bookCourt_choice_def

lemmas nav_eval = never_matches_def dateTextMatches_def buildDatePatterns_def MONTH_NAMES_def
  str_includes_def regex_test_def Let_def

section \<open>The time-range parser on hour ranges\<close>

lemma hour_cases:
  assumes "1 \<le> (s::nat)" "s \<le> 12"
  shows "s = 1 \<or> s = 2 \<or> s = 3 \<or> s = 4 \<or> s = 5 \<or> s = 6 \<or> s = 7 \<or> s = 8 \<or> s = 9
         \<or> s = 10 \<or> s = 11 \<or> s = 12"
  using assms by arith

lemma digit_not_special:
  assumes "is_digit c"
  shows "c \<noteq> CHR ''-''" "c \<noteq> CHR '':''" "\<not> is_space c"
  using assms by (auto simp: is_digit_def is_space_def)

lemma marker_simps:
  "\<not> is_digit CHR ''-''" "\<not> is_digit CHR ''a''" "\<not> is_digit CHR ''p''"
  "\<not> is_space CHR ''-''" "\<not> is_space CHR ''a''" "\<not> is_space CHR ''p''"
  "eq_ci CHR ''a'' CHR ''a''" "eq_ci CHR ''p'' CHR ''p''"
  by (simp_all add: is_digit_def is_space_def eq_ci_def)

lemma hour_string:
  assumes "1 \<le> s" "s \<le> 12"
  shows "(\<exists>a. is_digit a \<and> toString_nat s = [a]) \<or>
         (\<exists>a b. is_digit a \<and> is_digit b \<and> toString_nat s = [a, b])"
  using hour_cases[OF assms]
  by (elim disjE; simp add: toString_nat.simps digit_chr_def is_digit_def)

lemma parseInt_toString:
  assumes "1 \<le> s" "s \<le> 12"
  shows "parseInt_digits (toString_nat s) = s"
  using hour_cases[OF assms]
  by (elim disjE; simp add: toString_nat.simps digit_chr_def parseInt_digits_def digit_val_def)

lemmas match_unfold = timeRange_match.simps timeRange_at_def rx_digit12_def rx_opt_min_def
  rx_dash_def rx_period_def rx_opt_m_def digit_not_special marker_simps

lemma match_1_1:
  assumes "is_digit a" "is_digit c" "p = CHR ''a'' \<or> p = CHR ''p''"
  shows "timeRange_match ([a] @ ''-'' @ [c] @ [p])
         = Some \<lparr>m1 = [a], m2 = None, m3 = [c], m4 = None, m5 = p\<rparr>"
  using assms by (auto simp add: match_unfold)

lemma match_2_1:
  assumes "is_digit a" "is_digit b" "is_digit c" "p = CHR ''a'' \<or> p = CHR ''p''"
  shows "timeRange_match ([a, b] @ ''-'' @ [c] @ [p])
         = Some \<lparr>m1 = [a, b], m2 = None, m3 = [c], m4 = None, m5 = p\<rparr>"
  using assms by (auto simp add: match_unfold)

lemma match_1_2:
  assumes "is_digit a" "is_digit c" "is_digit d" "p = CHR ''a'' \<or> p = CHR ''p''"
  shows "timeRange_match ([a] @ ''-'' @ [c, d] @ [p])
         = Some \<lparr>m1 = [a], m2 = None, m3 = [c, d], m4 = None, m5 = p\<rparr>"
  using assms by (auto simp add: match_unfold)

lemma match_2_2:
  assumes "is_digit a" "is_digit b" "is_digit c" "is_digit d" "p = CHR ''a'' \<or> p = CHR ''p''"
  shows "timeRange_match ([a, b] @ ''-'' @ [c, d] @ [p])
         = Some \<lparr>m1 = [a, b], m2 = None, m3 = [c, d], m4 = None, m5 = p\<rparr>"
  using assms by (auto simp add: match_unfold)

lemma match_hours:
  assumes "1 \<le> s" "s \<le> 12" "1 \<le> e" "e \<le> 12" "p = CHR ''a'' \<or> p = CHR ''p''"
  shows "timeRange_match (toString_nat s @ ''-'' @ toString_nat e @ [p]) =
         Some \<lparr>m1 = toString_nat s, m2 = None, m3 = toString_nat e, m4 = None, m5 = p\<rparr>"
  using hour_string[OF assms(1,2)] hour_string[OF assms(3,4)] assms(5)
    match_1_1 match_1_2 match_2_1 match_2_2
  by (elim disjE exE conjE) simp_all

lemma toLowerCase_marker: "p = CHR ''a'' \<or> p = CHR ''p'' \<Longrightarrow> toLowerCase_chr p = p"
  by (erule disjE; simp add: toLowerCase_chr_def)

lemma hours_of_range:
  assumes "1 \<le> s" "s \<le> 12" "1 \<le> e" "e \<le> 12" "p = CHR ''a'' \<or> p = CHR ''p''"
  shows "parseTimeRange_hours (toString_nat s @ ''-'' @ toString_nat e @ [p]) =
         Some \<lparr>startHour24 =
                  (if to24h s p \<ge> to24h e p
                   then to24h s (if p = CHR ''p'' then CHR ''a'' else CHR ''p'')
                   else to24h s p),
               startMin = ''00'', endHour24 = to24h e p, endMin = ''00''\<rparr>"
  unfolding parseTimeRange_hours_def match_hours[OF assms]
  by (simp add: parseInt_toString[OF assms(1,2)] parseInt_toString[OF assms(3,4)]
      toLowerCase_marker[OF assms(5)] Let_def)

text \<open>
  Claim C1, as amended. For the hours \<open>s\<close> and \<open>e\<close> from 1 to 12: the input \<open>s-ep\<close> is
  parsed to a start hour strictly below the end hour. The input \<open>s-ea\<close> is parsed to a
  start hour below the end hour exactly when \<open>s\<close> comes before \<open>e\<close> in the morning
  (12 counting as 0); otherwise the start hour is moved into the afternoon, to
  \<open>s mod 12 + 12\<close>, which is above the end hour \<open>e mod 12\<close>.
\<close>

theorem parseTimeRange_start_before_end:
  assumes "1 \<le> s" "s \<le> 12" "1 \<le> e" "e \<le> 12"
  shows "start_before_end (toString_nat s @ ''-'' @ toString_nat e @ ''p'') \<and>
         (start_before_end (toString_nat s @ ''-'' @ toString_nat e @ ''a'')
            \<longleftrightarrow> s mod 12 < e mod 12) \<and>
         (\<not> s mod 12 < e mod 12 \<longrightarrow>
            parseTimeRange_hours (toString_nat s @ ''-'' @ toString_nat e @ ''a'') =
              Some \<lparr>startHour24 = s mod 12 + 12, startMin = ''00'',
                    endHour24 = e mod 12, endMin = ''00''\<rparr>)"
proof -
  have P: "parseTimeRange_hours (toString_nat s @ ''-'' @ toString_nat e @ ''p'') =
     Some \<lparr>startHour24 = (if to24h s CHR ''p'' \<ge> to24h e CHR ''p'' then to24h s CHR ''a''
                           else to24h s CHR ''p''),
           startMin = ''00'', endHour24 = to24h e CHR ''p'', endMin = ''00''\<rparr>"
    using hours_of_range[OF assms, of "CHR ''p''"] by simp
  have A: "parseTimeRange_hours (toString_nat s @ ''-'' @ toString_nat e @ ''a'') =
     Some \<lparr>startHour24 = (if to24h s CHR ''a'' \<ge> to24h e CHR ''a'' then to24h s CHR ''p''
                           else to24h s CHR ''a''),
           startMin = ''00'', endHour24 = to24h e CHR ''a'', endMin = ''00''\<rparr>"
    using hours_of_range[OF assms, of "CHR ''a''"] by simp
  have s12: "s mod 12 = (if s = 12 then 0 else s)"
    using assms(1,2) by simp
  have e12: "e mod 12 = (if e = 12 then 0 else e)"
    using assms(3,4) by simp
  have 1: "start_before_end (toString_nat s @ ''-'' @ toString_nat e @ ''p'')"
    unfolding start_before_end_def P using assms by (simp add: to24h_def)
  have 2: "start_before_end (toString_nat s @ ''-'' @ toString_nat e @ ''a'')
             \<longleftrightarrow> s mod 12 < e mod 12"
    unfolding start_before_end_def A s12 e12 using assms by (simp add: to24h_def)
  have 3: "\<not> s mod 12 < e mod 12 \<longrightarrow>
            parseTimeRange_hours (toString_nat s @ ''-'' @ toString_nat e @ ''a'') =
              Some \<lparr>startHour24 = s mod 12 + 12, startMin = ''00'',
                    endHour24 = e mod 12, endMin = ''00''\<rparr>"
    unfolding A s12 e12 using assms by (simp add: to24h_def)
  show ?thesis using 1 2 3 by blast
qed

theorem parseTimeRange_start_before_end_witness:
  "start_before_end ''11-1p'' \<and> \<not> start_before_end ''11-1a'' \<and>
   parseTimeRange_hours ''11-1a'' =
     Some \<lparr>startHour24 = 23, startMin = ''00'', endHour24 = 1, endMin = ''00''\<rparr>"
  using parseTimeRange_start_before_end[of 11 1]
  by (simp add: toString_nat.simps digit_chr_def)

text \<open>
  Claim C1 as stated fails on a morning range: \<open>11-1a\<close> is parsed to the start hour 23
  and the end hour 1.
\<close>

theorem parseTimeRange_inverted_counterexample:
  "parseTimeRange_hours ''11-1a'' =
     Some \<lparr>startHour24 = 23, startMin = ''00'', endHour24 = 1, endMin = ''00''\<rparr>
   \<and> \<not> start_before_end ''11-1a''
   \<and> parseTimeRange ''11-1a'' =
     Some \<lparr>startTime = ''23:00'', endTime = ''01:00'',
           startDisplay = ''11:00 PM'', endDisplay = ''1:00 AM''\<rparr>"
  by (simp add: start_before_end_def parse_eval char_eval)

text \<open>
  Claim C2. \<open>12-2p\<close> starts at 12:00, shown as \<open>12:00 PM\<close>, and ends at 14:00, shown as
  \<open>2:00 PM\<close>. \<open>11-1p\<close> starts at 11:00, shown as \<open>11:00 AM\<close>, and ends at 13:00, shown as
  \<open>1:00 PM\<close>: with the marker shared, 11 would be hour 23, which is not below 13, so the
  start takes the other marker. \<open>9-11p\<close> runs from 21:00 to 23:00, the marker shared.
\<close>

theorem parseTimeRange_edge_cases:
  "parseTimeRange ''12-2p'' =
     Some \<lparr>startTime = ''12:00'', endTime = ''14:00'',
           startDisplay = ''12:00 PM'', endDisplay = ''2:00 PM''\<rparr>
   \<and> parseTimeRange ''11-1p'' =
     Some \<lparr>startTime = ''11:00'', endTime = ''13:00'',
           startDisplay = ''11:00 AM'', endDisplay = ''1:00 PM''\<rparr>
   \<and> to24h 11 CHR ''p'' = 23 \<and> to24h 1 CHR ''p'' = 13 \<and> to24h 11 CHR ''a'' = 11
   \<and> parseTimeRange ''9-11p'' =
     Some \<lparr>startTime = ''21:00'', endTime = ''23:00'',
           startDisplay = ''9:00 PM'', endDisplay = ''11:00 PM''\<rparr>
   \<and> to24h 9 CHR ''p'' = 21 \<and> to24h 12 CHR ''p'' = 12"
  by (simp add: parse_eval char_eval)

text \<open>
  Claim C9 fails on the code: \<open>11a-1p\<close> is not parsed at all. The pattern wants the dash
  right after the start hour (with its minutes and white space), and finds the \<open>a\<close>; no
  other position of the text gives a match.
\<close>

theorem parseTimeRange_two_markers_null:
  "parseTimeRange ''11a-1p'' = None"
  by (simp add: parse_eval char_eval)

section \<open>What every parsed time range satisfies\<close>

lemma digit_val_le: "is_digit c \<Longrightarrow> digit_val c \<le> 9"
  by (auto simp: is_digit_def digit_val_def)

lemma rx_digit12_sound:
  assumes "(h, r) \<in> set (rx_digit12 s)"
  shows "list_all is_digit h \<and> parseInt_digits h \<le> 99"
proof -
  have two: "parseInt_digits [a, b] \<le> 99" if "is_digit a" "is_digit b" for a b
    using digit_val_le[OF that(1)] digit_val_le[OF that(2)] by (simp add: parseInt_digits_def)
  have one: "parseInt_digits [a] \<le> 99" if "is_digit a" for a
    using digit_val_le[OF that] by (simp add: parseInt_digits_def)
  from assms show ?thesis
    using one two by (auto simp: rx_digit12_def split: list.splits if_splits)
qed

lemma rx_opt_min_sound:
  assumes "(mm, r) \<in> set (rx_opt_min s)"
  shows "minute_text (case mm of None \<Rightarrow> ''00'' | Some t \<Rightarrow> t)"
  using assms
  by (auto simp: rx_opt_min_def minute_text_def is_digit_def split: list.splits if_splits)

lemma timeRange_at_sound:
  assumes "m \<in> set (timeRange_at s)"
  shows "parseInt_digits (m1 m) \<le> 99 \<and> parseInt_digits (m3 m) \<le> 99 \<and>
         minute_text (case m2 m of None \<Rightarrow> ''00'' | Some t \<Rightarrow> t) \<and>
         minute_text (case m4 m of None \<Rightarrow> ''00'' | Some t \<Rightarrow> t)"
  using assms rx_digit12_sound rx_opt_min_sound
  unfolding timeRange_at_def by fastforce

lemma timeRange_match_sound:
  "timeRange_match s = Some m \<Longrightarrow> \<exists>s'. m \<in> set (timeRange_at s')"
proof (induction s)
  case Nil
  then show ?case
    by (auto simp: timeRange_match.simps[of "[]"] split: list.splits)
       (metis list.set_intros(1))
next
  case (Cons c cs)
  then show ?case
    by (auto simp: timeRange_match.simps[of "c # cs"] split: list.splits)
       (metis list.set_intros(1))
qed

lemma to24h_le: "to24h h p \<le> h + 12" "h \<le> 12 \<Longrightarrow> to24h h p \<le> 23"
  by (auto simp: to24h_def)

text \<open>
  Claim C8, as amended. For every input that \<open>parseTimeRange\<close> accepts, both minute
  fields are texts of two digits (\<open>00\<close> when the input has no minutes, the digits of the
  input otherwise, so from \<open>00\<close> to \<open>99\<close>), both hours are at most 111, and both hours
  are at most 23 when the two hour numbers of the input are at most 12.
\<close>

theorem parseTimeRange_fields_bounds:
  assumes "parseTimeRange_hours timeString = Some h"
  shows "minute_text (startMin h) \<and> minute_text (endMin h) \<and>
         startHour24 h \<le> 111 \<and> endHour24 h \<le> 111 \<and>
         (\<forall>m. timeRange_match timeString = Some m \<longrightarrow>
               parseInt_digits (m1 m) \<le> 12 \<longrightarrow> parseInt_digits (m3 m) \<le> 12 \<longrightarrow>
               startHour24 h \<le> 23 \<and> endHour24 h \<le> 23)"
proof -
  from assms obtain m where m: "timeRange_match timeString = Some m"
    by (auto simp: parseTimeRange_hours_def split: option.splits)
  then obtain s' where "m \<in> set (timeRange_at s')"
    using timeRange_match_sound by blast
  note snd = timeRange_at_sound[OF this]
  have sm: "startMin h = (case m2 m of None \<Rightarrow> ''00'' | Some t \<Rightarrow> t)"
    and em: "endMin h = (case m4 m of None \<Rightarrow> ''00'' | Some t \<Rightarrow> t)"
    and eh: "endHour24 h = to24h (parseInt_digits (m3 m)) (toLowerCase_chr (m5 m))"
    and sh: "startHour24 h = to24h (parseInt_digits (m1 m)) (toLowerCase_chr (m5 m)) \<or>
             startHour24 h = to24h (parseInt_digits (m1 m))
               (if toLowerCase_chr (m5 m) = CHR ''p'' then CHR ''a'' else CHR ''p'')"
    using assms m by (auto simp: parseTimeRange_hours_def Let_def split: if_splits)
  have a: "minute_text (startMin h)" "minute_text (endMin h)"
    using snd sm em by simp_all
  have b: "endHour24 h \<le> 111"
    using to24h_le(1)[of "parseInt_digits (m3 m)" "toLowerCase_chr (m5 m)"] snd eh
    by linarith
  have c: "startHour24 h \<le> 111"
    using to24h_le(1)[of "parseInt_digits (m1 m)" "toLowerCase_chr (m5 m)"]
      to24h_le(1)[of "parseInt_digits (m1 m)"
        "if toLowerCase_chr (m5 m) = CHR ''p'' then CHR ''a'' else CHR ''p''"] snd sh
    by linarith
  have d: "parseInt_digits (m1 m) \<le> 12 \<Longrightarrow> startHour24 h \<le> 23"
    using to24h_le(2)[of "parseInt_digits (m1 m)"] sh by auto
  have e: "parseInt_digits (m3 m) \<le> 12 \<Longrightarrow> endHour24 h \<le> 23"
    using to24h_le(2)[of "parseInt_digits (m3 m)"] eh by auto
  show ?thesis using a b c d e m by auto
qed

theorem parseTimeRange_fields_bounds_witness:
  "parseTimeRange_hours ''9:30-11p'' =
     Some \<lparr>startHour24 = 21, startMin = ''30'', endHour24 = 23, endMin = ''00''\<rparr>
   \<and> timeRange_match ''9:30-11p'' =
     Some \<lparr>m1 = ''9'', m2 = Some ''30'', m3 = ''11'', m4 = None, m5 = CHR ''p''\<rparr>
   \<and> parseInt_digits ''9'' \<le> 12 \<and> parseInt_digits ''11'' \<le> 12
   \<and> minute_text ''30'' \<and> minute_text ''00'' \<and> (21::nat) \<le> 23 \<and> (23::nat) \<le> 23"
proof -
  have h: "parseTimeRange_hours ''9:30-11p'' =
     Some \<lparr>startHour24 = 21, startMin = ''30'', endHour24 = 23, endMin = ''00''\<rparr>"
    by (simp add: parse_eval char_eval)
  have m: "timeRange_match ''9:30-11p'' =
     Some \<lparr>m1 = ''9'', m2 = Some ''30'', m3 = ''11'', m4 = None, m5 = CHR ''p''\<rparr>"
    by (simp add: parse_eval char_eval)
  have n: "parseInt_digits ''9'' \<le> 12 \<and> parseInt_digits ''11'' \<le> 12"
    by (simp add: char_eval)
  from parseTimeRange_fields_bounds[OF h] m n h show ?thesis
    by simp
qed

text \<open>
  Claim C8 as stated fails: the pattern takes any one or two digits as an hour and any two
  digits as minutes. \<open>13-14p\<close> is parsed to the hours 25 and 26, and \<open>9:75-10p\<close> to the
  start minutes \<open>75\<close>.
\<close>

theorem parseTimeRange_invariant_counterexample:
  "parseTimeRange_hours ''13-14p'' =
     Some \<lparr>startHour24 = 25, startMin = ''00'', endHour24 = 26, endMin = ''00''\<rparr>
   \<and> \<not> timeRange_invariant
         \<lparr>startHour24 = 25, startMin = ''00'', endHour24 = 26, endMin = ''00''\<rparr>
   \<and> parseTimeRange_hours ''9:75-10p'' =
     Some \<lparr>startHour24 = 21, startMin = ''75'', endHour24 = 22, endMin = ''00''\<rparr>
   \<and> \<not> timeRange_invariant
         \<lparr>startHour24 = 21, startMin = ''75'', endHour24 = 22, endMin = ''00''\<rparr>"
  by (simp add: parse_eval char_eval timeRange_invariant_def minute_text_def)

section \<open>The date of a game\<close>

lemma formatDateForBooking_same_day:
  assumes "1 \<le> mo" "mo \<le> 12" "1 \<le> dy" "dy \<le> days_in_month (year now) (mo - 1)"
    and "map parseInt (split_on CHR ''/'' dateString) = Some mo # Some dy # rest"
    and "month now = mo - 1" "day now = dy"
  shows "formatDateForBooking now dateString =
     Some (if msOfDay now > 0
           then setFullYear \<lparr>year = year now, month = mo - 1, day = dy, msOfDay = 0\<rparr>
                  (year now + 1)
           else \<lparr>year = year now, month = mo - 1, day = dy, msOfDay = 0\<rparr>)"
  using assms
  by (simp add: formatDateForBooking_def date_lt_def time_value_def Let_def)

text \<open>
  Claim C5 fails on the code. The game date is built at midnight and compared with the
  clock as it is, time of day included: on 24 February 2026 at 10:00, \<open>2/24\<close> resolves to
  24 February 2027. It stays in 2026 only at midnight sharp, and on the days before.
\<close>

theorem formatDateForBooking_same_day_rolls:
  "formatDateForBooking \<lparr>year = 2026, month = 1, day = 24, msOfDay = 36000000\<rparr> ''2/24''
     = Some \<lparr>year = 2027, month = 1, day = 24, msOfDay = 0\<rparr>
   \<and> formatDateForBooking \<lparr>year = 2026, month = 1, day = 24, msOfDay = 0\<rparr> ''2/24''
     = Some \<lparr>year = 2026, month = 1, day = 24, msOfDay = 0\<rparr>
   \<and> formatDateForBooking \<lparr>year = 2026, month = 1, day = 23, msOfDay = 36000000\<rparr> ''2/24''
     = Some \<lparr>year = 2026, month = 1, day = 24, msOfDay = 0\<rparr>
   \<and> formatDateForBooking \<lparr>year = 2026, month = 1, day = 25, msOfDay = 0\<rparr> ''2/24''
     = Some \<lparr>year = 2027, month = 1, day = 24, msOfDay = 0\<rparr>"
  by (simp add: date_eval char_eval)

section \<open>Slot classification\<close>

lemma noneAvailable_loop_iff:
  "noneAvailable_loop h us \<longleftrightarrow> (\<exists>u\<in>set us. noneAvailable_hit h u)"
  by (induction us) auto

lemma reserveButtons_loop_iff:
  "reserveButtons_loop h bs \<longleftrightarrow> (\<exists>b\<in>set bs. reserveButton_hit h b)"
  by (induction bs) auto

text \<open>
  Claim C4. Both classifications, the one of \<open>checkAvailability\<close> over the scraped records
  and \<open>_getSlotStatus\<close> over the page, give \<open>unavailable\<close> as soon as some indicator
  matches the hour, whatever the candidates are; \<open>available\<close> when no indicator matches
  and some candidate does; and \<open>unknown\<close> when nothing matches.
\<close>

theorem slot_status_precedence:
  "checkAvailability_status md allSlots unavailableSlots =
     (if \<exists>u\<in>set unavailableSlots. unavailableMatchesTime u md then unavailable
      else if \<exists>s\<in>set allSlots. slotMatchesTime s md then available
      else unknown)
   \<and> getSlotStatus h noneAvailable reserveButtons =
     (if \<exists>u\<in>set noneAvailable. noneAvailable_hit h u then unavailable
      else if \<exists>b\<in>set reserveButtons. reserveButton_hit h b then available
      else unknown)"
  by (simp add: checkAvailability_status_def getSlotStatus_def list_ex_iff
      noneAvailable_loop_iff reserveButtons_loop_iff)

theorem slot_status_precedence_witness:
  "checkAvailability_status
     \<lparr>md_startHour24 = 21, displayHour = 9, amPm = ''PM'', md_startMin = ''00'', timeLabel = ''9:00 PM''\<rparr>
     [\<lparr>index = 0, ariaLabel = ''Reserve 9:00 PM'', dataHref = '''', href = '''', onclick = '''',
        textContent = '''', parentAriaLabel = '''', parentDataTime = '''', parentDataHref = ''''\<rparr>]
     [\<lparr>dataTime = ''9:00 PM'', uParentAriaLabel = '''', uParentDataTime = ''''\<rparr>] = unavailable
   \<and> checkAvailability_status
     \<lparr>md_startHour24 = 21, displayHour = 9, amPm = ''PM'', md_startMin = ''00'', timeLabel = ''9:00 PM''\<rparr>
     [\<lparr>index = 0, ariaLabel = ''Reserve 9:00 PM'', dataHref = '''', href = '''', onclick = '''',
        textContent = '''', parentAriaLabel = '''', parentDataTime = '''', parentDataHref = ''''\<rparr>]
     [\<lparr>dataTime = ''8:00 PM'', uParentAriaLabel = '''', uParentDataTime = ''''\<rparr>] = available
   \<and> getSlotStatus 21
     [\<lparr>dataTime = ''9:00 PM'', uParentAriaLabel = '''', uParentDataTime = ''''\<rparr>]
     [\<lparr>index = 0, ariaLabel = ''Reserve 9:00 PM'', dataHref = '''', href = '''', onclick = '''',
        textContent = '''', parentAriaLabel = '''', parentDataTime = '''', parentDataHref = ''''\<rparr>]
      = unavailable
   \<and> getSlotStatus 21
     [\<lparr>dataTime = ''8:00 PM'', uParentAriaLabel = '''', uParentDataTime = ''''\<rparr>]
     [\<lparr>index = 0, ariaLabel = ''Reserve 8:00 PM'', dataHref = '''', href = '''', onclick = '''',
        textContent = '''', parentAriaLabel = '''', parentDataTime = '''', parentDataHref = ''''\<rparr>]
      = unknown"
proof -
  have a: "unavailableMatchesTime \<lparr>dataTime = ''9:00 PM'', uParentAriaLabel = '''', uParentDataTime = ''''\<rparr>
     \<lparr>md_startHour24 = 21, displayHour = 9, amPm = ''PM'', md_startMin = ''00'', timeLabel = ''9:00 PM''\<rparr>"
    by (simp add: booking_eval char_eval)
  have b: "\<not> unavailableMatchesTime \<lparr>dataTime = ''8:00 PM'', uParentAriaLabel = '''', uParentDataTime = ''''\<rparr>
     \<lparr>md_startHour24 = 21, displayHour = 9, amPm = ''PM'', md_startMin = ''00'', timeLabel = ''9:00 PM''\<rparr>"
    by (simp add: booking_eval char_eval)
  have c: "slotMatchesTime \<lparr>index = 0, ariaLabel = ''Reserve 9:00 PM'', dataHref = '''', href = '''', onclick = '''',
        textContent = '''', parentAriaLabel = '''', parentDataTime = '''', parentDataHref = ''''\<rparr>
     \<lparr>md_startHour24 = 21, displayHour = 9, amPm = ''PM'', md_startMin = ''00'', timeLabel = ''9:00 PM''\<rparr>"
    by (simp add: booking_eval char_eval)
  have d: "noneAvailable_hit 21 \<lparr>dataTime = ''9:00 PM'', uParentAriaLabel = '''', uParentDataTime = ''''\<rparr>"
    by (simp add: booking_eval char_eval)
  have e: "\<not> noneAvailable_hit 21 \<lparr>dataTime = ''8:00 PM'', uParentAriaLabel = '''', uParentDataTime = ''''\<rparr>"
    by (simp add: booking_eval char_eval)
  have f: "\<not> reserveButton_hit 21 \<lparr>index = 0, ariaLabel = ''Reserve 8:00 PM'', dataHref = '''', href = '''', onclick = '''',
        textContent = '''', parentAriaLabel = '''', parentDataTime = '''', parentDataHref = ''''\<rparr>"
    by (simp add: booking_eval char_eval)
  show ?thesis
    by (simp only: slot_status_precedence a b c d e f list.set ball_simps bex_simps
          singleton_iff simp_thms if_True if_False bex_triv_one_point1 bex_triv_one_point2)
qed

text \<open>
  Claim C3 holds for the matcher with the strict start-time pattern and fails for
  \<open>_getSlotStatus\<close> (and for the \<open>checkAvailability\<close> of \<open>src/booking.js\<close>, which holds the
  same code). For an indicator whose parent label is
  \<open>null on Friday, March 6, 2026 at 9:00 PM to 10:00 PM\<close>: with the strict pattern the
  9 PM hour is \<open>unavailable\<close> and the 10 PM hour is not (the label is behind \<open>to\<close>);
  \<open>_getSlotStatus\<close>, whose pattern only asks for word boundaries around \<open>10:00 PM\<close>,
  takes the end of the range for a start and gives \<open>unavailable\<close> for the 10 PM hour too.
\<close>

theorem getSlotStatus_end_time_unavailable:
  "getSlotStatus 22
     [\<lparr>dataTime = '''',
       uParentAriaLabel = ''null on Friday, March 6, 2026 at 9:00 PM to 10:00 PM'',
       uParentDataTime = ''''\<rparr>] [] = unavailable
   \<and> getSlotStatus 21
     [\<lparr>dataTime = '''',
       uParentAriaLabel = ''null on Friday, March 6, 2026 at 9:00 PM to 10:00 PM'',
       uParentDataTime = ''''\<rparr>] [] = unavailable
   \<and> Option.bind (parseTimeRange ''9-10p'') buildTimeMatchData =
     Some \<lparr>md_startHour24 = 21, displayHour = 9, amPm = ''PM'', md_startMin = ''00'',
           timeLabel = ''9:00 PM''\<rparr>
   \<and> checkAvailability_status
     \<lparr>md_startHour24 = 21, displayHour = 9, amPm = ''PM'', md_startMin = ''00'',
      timeLabel = ''9:00 PM''\<rparr> []
     [\<lparr>dataTime = '''',
       uParentAriaLabel = ''null on Friday, March 6, 2026 at 9:00 PM to 10:00 PM'',
       uParentDataTime = ''''\<rparr>] = unavailable
   \<and> Option.bind (parseTimeRange ''10-11p'') buildTimeMatchData =
     Some \<lparr>md_startHour24 = 22, displayHour = 10, amPm = ''PM'', md_startMin = ''00'',
           timeLabel = ''10:00 PM''\<rparr>
   \<and> checkAvailability_status
     \<lparr>md_startHour24 = 22, displayHour = 10, amPm = ''PM'', md_startMin = ''00'',
      timeLabel = ''10:00 PM''\<rparr> []
     [\<lparr>dataTime = '''',
       uParentAriaLabel = ''null on Friday, March 6, 2026 at 9:00 PM to 10:00 PM'',
       uParentDataTime = ''''\<rparr>] = unknown"
proof -
  have a: "getSlotStatus 22
     [\<lparr>dataTime = '''',
       uParentAriaLabel = ''null on Friday, March 6, 2026 at 9:00 PM to 10:00 PM'',
       uParentDataTime = ''''\<rparr>] [] = unavailable"
    by (simp add: booking_eval char_eval)
  have b: "getSlotStatus 21
     [\<lparr>dataTime = '''',
       uParentAriaLabel = ''null on Friday, March 6, 2026 at 9:00 PM to 10:00 PM'',
       uParentDataTime = ''''\<rparr>] [] = unavailable"
    by (simp add: booking_eval char_eval)
  have c: "Option.bind (parseTimeRange ''9-10p'') buildTimeMatchData =
     Some \<lparr>md_startHour24 = 21, displayHour = 9, amPm = ''PM'', md_startMin = ''00'',
           timeLabel = ''9:00 PM''\<rparr>"
    by (simp add: parse_eval booking_eval char_eval)
  have d: "checkAvailability_status
     \<lparr>md_startHour24 = 21, displayHour = 9, amPm = ''PM'', md_startMin = ''00'',
      timeLabel = ''9:00 PM''\<rparr> []
     [\<lparr>dataTime = '''',
       uParentAriaLabel = ''null on Friday, March 6, 2026 at 9:00 PM to 10:00 PM'',
       uParentDataTime = ''''\<rparr>] = unavailable"
    by (simp add: booking_eval char_eval)
  have e: "Option.bind (parseTimeRange ''10-11p'') buildTimeMatchData =
     Some \<lparr>md_startHour24 = 22, displayHour = 10, amPm = ''PM'', md_startMin = ''00'',
           timeLabel = ''10:00 PM''\<rparr>"
    by (simp add: parse_eval booking_eval char_eval)
  have f: "checkAvailability_status
     \<lparr>md_startHour24 = 22, displayHour = 10, amPm = ''PM'', md_startMin = ''00'',
      timeLabel = ''10:00 PM''\<rparr> []
     [\<lparr>dataTime = '''',
       uParentAriaLabel = ''null on Friday, March 6, 2026 at 9:00 PM to 10:00 PM'',
       uParentDataTime = ''''\<rparr>] = unknown"
    by (simp add: booking_eval char_eval)
  from a b c d e f show ?thesis by blast
qed

section \<open>The slot that is clicked\<close>

lemma targetSlotIndex_first:
  assumes "map index allSlots = [k..<k + length allSlots]"
  shows "targetSlotIndex md allSlots = - 1 \<and> (\<forall>s\<in>set allSlots. \<not> slotMatchesTime s md)
       \<or> (\<exists>i. targetSlotIndex md allSlots = int (k + i) \<and> first_at (\<lambda>s. slotMatchesTime s md) allSlots i)"
  using assms
proof (induction allSlots arbitrary: k)
  case Nil
  then show ?case by simp
next
  case (Cons s rest)
  have "[k..<k + length (s # rest)] = k # [Suc k..<Suc k + length rest]"
    by (subst upt_rec) simp
  with Cons.prems have ix: "index s = k" and rest: "map index rest = [Suc k..<Suc k + length rest]"
    by simp_all
  show ?case
  proof (cases "slotMatchesTime s md")
    case True
    then have "targetSlotIndex md (s # rest) = int (k + 0) \<and> first_at (\<lambda>s. slotMatchesTime s md) (s # rest) 0"
      using ix by (simp add: first_at_def)
    then show ?thesis by blast
  next
    case False
    from Cons.IH[OF rest] show ?thesis
    proof
      assume "targetSlotIndex md rest = - 1 \<and> (\<forall>s\<in>set rest. \<not> slotMatchesTime s md)"
      then show ?thesis using False by simp
    next
      assume "\<exists>i. targetSlotIndex md rest = int (Suc k + i) \<and> first_at (\<lambda>s. slotMatchesTime s md) rest i"
      then obtain i where i: "targetSlotIndex md rest = int (Suc k + i)" "first_at (\<lambda>s. slotMatchesTime s md) rest i"
        by blast
      have "first_at (\<lambda>s. slotMatchesTime s md) (s # rest) (Suc i)"
        using i(2) False by (auto simp: first_at_def less_Suc_eq_0_disj)
      moreover have "targetSlotIndex md (s # rest) = int (k + Suc i)"
        using i(1) False by simp
      ultimately show ?thesis by blast
    qed
  qed
qed

lemma reserveButtons_click_first:
  "reserveButtons_click h k bs = None \<and> (\<forall>b\<in>set bs. \<not> clickable h b)
   \<or> (\<exists>i. reserveButtons_click h k bs = Some (k + i) \<and> first_at (clickable h) bs i)"
proof (induction bs arbitrary: k)
  case Nil
  then show ?case by simp
next
  case (Cons b rest)
  show ?case
  proof (cases "clickable h b")
    case True
    then have "reserveButtons_click h k (b # rest) = Some (k + 0) \<and> first_at (clickable h) (b # rest) 0"
      by (simp add: first_at_def clickable_def)
    then show ?thesis by blast
  next
    case False
    then have step: "reserveButtons_click h k (b # rest) = reserveButtons_click h (Suc k) rest"
      by (auto simp: clickable_def)
    from Cons.IH[of "Suc k"] show ?thesis
    proof
      assume "reserveButtons_click h (Suc k) rest = None \<and> (\<forall>b\<in>set rest. \<not> clickable h b)"
      then show ?thesis using False step by simp
    next
      assume "\<exists>i. reserveButtons_click h (Suc k) rest = Some (Suc k + i) \<and> first_at (clickable h) rest i"
      then obtain i where i: "reserveButtons_click h (Suc k) rest = Some (Suc k + i)" "first_at (clickable h) rest i"
        by blast
      have "first_at (clickable h) (b # rest) (Suc i)"
        using i(2) False by (auto simp: first_at_def less_Suc_eq_0_disj)
      moreover have "reserveButtons_click h k (b # rest) = Some (k + Suc i)"
        using i(1) step by simp
      ultimately show ?thesis by blast
    qed
  qed
qed

text \<open>
  Claim C10, as amended. In the flow that clicks by index, the slot clicked is the first
  scraped candidate that matches the hour. In \<open>_doBookCourt\<close> the handle whose click ends
  the loop is the first one that matches the hour and on which no call throws; it is the
  first matching one when no call on any handle throws.
\<close>

theorem first_match_clicked:
  "(scraped allSlots \<longrightarrow> bookCourt_choice md allSlots unavailableSlots = ClickSlot i \<longrightarrow>
      first_at (\<lambda>s. slotMatchesTime s md) allSlots i)
   \<and> (reserveButtons_click h 0 bs = Some i \<longrightarrow> first_at (clickable h) bs i)
   \<and> (reserveButtons_click h 0 bs = Some i \<longrightarrow>
        (\<forall>b\<in>set bs. \<not> getAttribute_throws b \<and> \<not> click_fails b) \<longrightarrow>
        first_at (\<lambda>b. doBook_matchesTime h (button b)) bs i)"
proof (intro conjI impI)
  assume sc: "scraped allSlots" and ch: "bookCourt_choice md allSlots unavailableSlots = ClickSlot i"
  from sc have "map index allSlots = [0..<0 + length allSlots]" by (simp add: scraped_def)
  from targetSlotIndex_first[OF this, of md] ch
  show "first_at (\<lambda>s. slotMatchesTime s md) allSlots i"
    by (auto simp: bookCourt_choice_def Let_def split: if_splits)
next
  assume "reserveButtons_click h 0 bs = Some i"
  with reserveButtons_click_first[of h 0 bs] show "first_at (clickable h) bs i" by auto
next
  assume a: "reserveButtons_click h 0 bs = Some i" and nt: "\<forall>b\<in>set bs. \<not> getAttribute_throws b \<and> \<not> click_fails b"
  with reserveButtons_click_first[of h 0 bs] have "first_at (clickable h) bs i" by auto
  then show "first_at (\<lambda>b. doBook_matchesTime h (button b)) bs i"
    using nt by (auto simp: first_at_def clickable_def)
qed


theorem first_match_clicked_witness:
  "scraped
     [\<lparr>index = 0, ariaLabel = ''Reserve 8:00 PM'', dataHref = '''', href = '''', onclick = '''',
        textContent = '''', parentAriaLabel = '''', parentDataTime = '''', parentDataHref = ''''\<rparr>,
      \<lparr>index = 1, ariaLabel = ''Reserve 9:00 PM'', dataHref = '''', href = '''', onclick = '''',
        textContent = '''', parentAriaLabel = '''', parentDataTime = '''', parentDataHref = ''''\<rparr>,
      \<lparr>index = 2, ariaLabel = '''', dataHref = '''', href = '''', onclick = '''',
        textContent = '''', parentAriaLabel = '''', parentDataTime = ''9:00 PM'',
        parentDataHref = ''''\<rparr>]
   \<and> bookCourt_choice
     \<lparr>md_startHour24 = 21, displayHour = 9, amPm = ''PM'', md_startMin = ''00'',
      timeLabel = ''9:00 PM''\<rparr>
     [\<lparr>index = 0, ariaLabel = ''Reserve 8:00 PM'', dataHref = '''', href = '''', onclick = '''',
        textContent = '''', parentAriaLabel = '''', parentDataTime = '''', parentDataHref = ''''\<rparr>,
      \<lparr>index = 1, ariaLabel = ''Reserve 9:00 PM'', dataHref = '''', href = '''', onclick = '''',
        textContent = '''', parentAriaLabel = '''', parentDataTime = '''', parentDataHref = ''''\<rparr>,
      \<lparr>index = 2, ariaLabel = '''', dataHref = '''', href = '''', onclick = '''',
        textContent = '''', parentAriaLabel = '''', parentDataTime = ''9:00 PM'',
        parentDataHref = ''''\<rparr>] [] = ClickSlot 1
   \<and> first_at
     (\<lambda>s. slotMatchesTime s
        \<lparr>md_startHour24 = 21, displayHour = 9, amPm = ''PM'', md_startMin = ''00'',
         timeLabel = ''9:00 PM''\<rparr>)
     [\<lparr>index = 0, ariaLabel = ''Reserve 8:00 PM'', dataHref = '''', href = '''', onclick = '''',
        textContent = '''', parentAriaLabel = '''', parentDataTime = '''', parentDataHref = ''''\<rparr>,
      \<lparr>index = 1, ariaLabel = ''Reserve 9:00 PM'', dataHref = '''', href = '''', onclick = '''',
        textContent = '''', parentAriaLabel = '''', parentDataTime = '''', parentDataHref = ''''\<rparr>,
      \<lparr>index = 2, ariaLabel = '''', dataHref = '''', href = '''', onclick = '''',
        textContent = '''', parentAriaLabel = '''', parentDataTime = ''9:00 PM'',
        parentDataHref = ''''\<rparr>] 1
   \<and> reserveButtons_click 21 0
     [\<lparr>button = \<lparr>index = 0, ariaLabel = ''Reserve 8:00 PM'', dataHref = '''', href = '''',
          onclick = '''', textContent = '''', parentAriaLabel = '''', parentDataTime = '''',
          parentDataHref = ''''\<rparr>, getAttribute_throws = False, click_fails = False\<rparr>,
      \<lparr>button = \<lparr>index = 1, ariaLabel = ''Reserve 9:00 PM'', dataHref = '''', href = '''',
          onclick = '''', textContent = '''', parentAriaLabel = '''', parentDataTime = '''',
          parentDataHref = ''''\<rparr>, getAttribute_throws = False, click_fails = False\<rparr>] = Some 1
   \<and> first_at (\<lambda>b. doBook_matchesTime 21 (button b))
     [\<lparr>button = \<lparr>index = 0, ariaLabel = ''Reserve 8:00 PM'', dataHref = '''', href = '''',
          onclick = '''', textContent = '''', parentAriaLabel = '''', parentDataTime = '''',
          parentDataHref = ''''\<rparr>, getAttribute_throws = False, click_fails = False\<rparr>,
      \<lparr>button = \<lparr>index = 1, ariaLabel = ''Reserve 9:00 PM'', dataHref = '''', href = '''',
          onclick = '''', textContent = '''', parentAriaLabel = '''', parentDataTime = '''',
          parentDataHref = ''''\<rparr>, getAttribute_throws = False, click_fails = False\<rparr>] 1"
proof -
  let ?md = "\<lparr>md_startHour24 = 21, displayHour = 9, amPm = ''PM'', md_startMin = ''00'',
      timeLabel = ''9:00 PM''\<rparr>"
  let ?s0 = "\<lparr>index = 0, ariaLabel = ''Reserve 8:00 PM'', dataHref = '''', href = '''', onclick = '''',
        textContent = '''', parentAriaLabel = '''', parentDataTime = '''', parentDataHref = ''''\<rparr>"
  let ?s1 = "\<lparr>index = 1, ariaLabel = ''Reserve 9:00 PM'', dataHref = '''', href = '''', onclick = '''',
        textContent = '''', parentAriaLabel = '''', parentDataTime = '''', parentDataHref = ''''\<rparr>"
  let ?s2 = "\<lparr>index = 2, ariaLabel = '''', dataHref = '''', href = '''', onclick = '''',
        textContent = '''', parentAriaLabel = '''', parentDataTime = ''9:00 PM'',
        parentDataHref = ''''\<rparr>"
  let ?b0 = "\<lparr>button = ?s0, getAttribute_throws = False, click_fails = False\<rparr>"
  let ?b1 = "\<lparr>button = ?s1, getAttribute_throws = False, click_fails = False\<rparr>"
  have sc: "scraped [?s0, ?s1, ?s2]"
    by (simp add: scraped_def upt_rec)
  have m0: "\<not> slotMatchesTime ?s0 ?md"
    by (simp add: booking_eval char_eval)
  have m1: "slotMatchesTime ?s1 ?md"
    by (simp add: booking_eval char_eval)
  have ch: "bookCourt_choice ?md [?s0, ?s1, ?s2] [] = ClickSlot 1"
    by (simp add: bookCourt_choice_def m0 m1 del: One_nat_def)
  have d0: "\<not> doBook_matchesTime 21 ?s0"
    by (simp add: booking_eval char_eval)
  have d1: "doBook_matchesTime 21 ?s1"
    by (simp add: booking_eval char_eval)
  have rc: "reserveButtons_click 21 0 [?b0, ?b1] = Some 1"
    by (simp add: d0 d1 del: One_nat_def)
  have nt: "\<forall>b\<in>set [?b0, ?b1]. \<not> getAttribute_throws b \<and> \<not> click_fails b"
    by simp
  from first_match_clicked[of "[?s0, ?s1, ?s2]" ?md "[]" 1 21 "[?b0, ?b1]"] sc ch rc nt
  show ?thesis by blast
qed

text \<open>
  Claim C10 as stated fails in \<open>_doBookCourt\<close>: when the click on the first matching
  handle throws, the error is dropped, the scan goes on, and the second matching handle
  is the one clicked.
\<close>

theorem click_throws_counterexample:
  "doBook_matchesTime 21
     \<lparr>index = 0, ariaLabel = ''Reserve 9:00 PM'', dataHref = '''', href = '''', onclick = '''',
      textContent = '''', parentAriaLabel = '''', parentDataTime = '''', parentDataHref = ''''\<rparr>
   \<and> reserveButtons_click 21 0
     [\<lparr>button = \<lparr>index = 0, ariaLabel = ''Reserve 9:00 PM'', dataHref = '''', href = '''',
          onclick = '''', textContent = '''', parentAriaLabel = '''', parentDataTime = '''',
          parentDataHref = ''''\<rparr>, getAttribute_throws = False, click_fails = True\<rparr>,
      \<lparr>button = \<lparr>index = 1, ariaLabel = ''Court 2 9:00 PM'', dataHref = '''', href = '''',
          onclick = '''', textContent = '''', parentAriaLabel = '''', parentDataTime = '''',
          parentDataHref = ''''\<rparr>, getAttribute_throws = False, click_fails = False\<rparr>] = Some 1"
proof -
  have d0: "doBook_matchesTime 21
     \<lparr>index = 0, ariaLabel = ''Reserve 9:00 PM'', dataHref = '''', href = '''', onclick = '''',
      textContent = '''', parentAriaLabel = '''', parentDataTime = '''', parentDataHref = ''''\<rparr>"
    by (simp add: booking_eval char_eval)
  have d1: "doBook_matchesTime 21
     \<lparr>index = 1, ariaLabel = ''Court 2 9:00 PM'', dataHref = '''', href = '''', onclick = '''',
      textContent = '''', parentAriaLabel = '''', parentDataTime = '''', parentDataHref = ''''\<rparr>"
    by (simp add: booking_eval char_eval)
  show ?thesis by (simp add: d0 d1 del: One_nat_def)
qed

section \<open>The retry loop\<close>

lemma retry_loop_unfold:
  "retry_loop env failure 1 [] =
     (case run_attempt env 1 of
        Returns r \<Rightarrow> (Some r, [Attempt 1])
      | Throws e1 \<Rightarrow>
          (case initialize_throws env 2 of
             Some ei \<Rightarrow> (Some (failure ei), [Attempt 1, Close, Initialize, Screenshot])
           | None \<Rightarrow>
               (case run_attempt env 2 of
                  Returns r \<Rightarrow> (Some r, [Attempt 1, Close, Initialize, Attempt 2])
                | Throws e2 \<Rightarrow>
                    (Some (failure e2), [Attempt 1, Close, Initialize, Attempt 2, Screenshot]))))"
proof -
  have two: "retry_loop env failure 2 calls =
     (case initialize_throws env 2 of
        Some ei \<Rightarrow> (Some (failure ei), calls @ [Close, Initialize, Screenshot])
      | None \<Rightarrow>
          (case run_attempt env 2 of
             Returns r \<Rightarrow> (Some r, calls @ [Close, Initialize, Attempt 2])
           | Throws e2 \<Rightarrow>
               (Some (failure e2), calls @ [Close, Initialize, Attempt 2, Screenshot])))"
    for calls
    by (subst retry_loop.simps)
       (simp add: MAX_RETRIES_def Let_def split: attempt.splits option.splits)
  have one: "retry_loop env failure 1 [] =
     (case run_attempt env 1 of
        Returns r \<Rightarrow> (Some r, [Attempt 1])
      | Throws e1 \<Rightarrow> retry_loop env failure 2 [Attempt 1])"
    by (subst retry_loop.simps)
       (simp add: MAX_RETRIES_def Let_def numeral_2_eq_2 split: attempt.splits option.splits)
  show ?thesis
    unfolding one two by (simp split: attempt.splits option.splits)
qed

text \<open>
  Claim C6. \<open>bookCourt\<close> and \<open>checkAvailability\<close> always return a result and run their
  attempt at most twice. When the first attempt throws and the second one returns, the
  session is closed and initialised again between the two, and the result is that of the
  second attempt. When both attempts throw, the result is the failure object
  (\<open>success: false\<close>, or \<open>status: 'error'\<close>) with the message of the second attempt, and
  no third attempt is made.
\<close>

theorem retry_loop_two_attempts:
  "(\<exists>r. fst (bookCourt env) = Some r) \<and> attempts_made (snd (bookCourt env)) \<le> 2
   \<and> (run_attempt env 1 = Returns r1 \<longrightarrow> bookCourt env = (Some r1, [Attempt 1]))
   \<and> (run_attempt env 1 = Throws e1 \<longrightarrow> initialize_throws env 2 = None \<longrightarrow>
        run_attempt env 2 = Returns r2 \<longrightarrow>
        bookCourt env = (Some r2, [Attempt 1, Close, Initialize, Attempt 2]))
   \<and> (run_attempt env 1 = Throws e1 \<longrightarrow> initialize_throws env 2 = None \<longrightarrow>
        run_attempt env 2 = Throws e2 \<longrightarrow>
        bookCourt env =
          (Some \<lparr>success = False, alreadyBooked = False, message = None, bookingError = Some e2\<rparr>,
           [Attempt 1, Close, Initialize, Attempt 2, Screenshot]))
   \<and> (run_attempt env 1 = Throws e1 \<longrightarrow> initialize_throws env 2 = Some e2 \<longrightarrow>
        bookCourt env =
          (Some \<lparr>success = False, alreadyBooked = False, message = None, bookingError = Some e2\<rparr>,
           [Attempt 1, Close, Initialize, Screenshot]))
   \<and> (\<exists>r. fst (checkAvailability cenv) = Some r)
   \<and> attempts_made (snd (checkAvailability cenv)) \<le> 2
   \<and> (run_attempt cenv 1 = Returns c1 \<longrightarrow> checkAvailability cenv = (Some c1, [Attempt 1]))
   \<and> (run_attempt cenv 1 = Throws e1 \<longrightarrow> initialize_throws cenv 2 = None \<longrightarrow>
        run_attempt cenv 2 = Returns c2 \<longrightarrow>
        checkAvailability cenv = (Some c2, [Attempt 1, Close, Initialize, Attempt 2]))
   \<and> (run_attempt cenv 1 = Throws e1 \<longrightarrow> initialize_throws cenv 2 = None \<longrightarrow>
        run_attempt cenv 2 = Throws e2 \<longrightarrow>
        checkAvailability cenv =
          (Some \<lparr>status = error, checkedLabel = None, checkError = Some e2\<rparr>,
           [Attempt 1, Close, Initialize, Attempt 2, Screenshot]))
   \<and> (run_attempt cenv 1 = Throws e1 \<longrightarrow> initialize_throws cenv 2 = Some e2 \<longrightarrow>
        checkAvailability cenv =
          (Some \<lparr>status = error, checkedLabel = None, checkError = Some e2\<rparr>,
           [Attempt 1, Close, Initialize, Screenshot]))"
  unfolding bookCourt_def checkAvailability_def retry_loop_unfold
  by (simp add: attempts_made_def split: attempt.splits option.splits)

theorem retry_loop_two_attempts_witness:
  "bookCourt
     \<lparr>initialize_throws = (\<lambda>n. None),
      run_attempt = (\<lambda>n. if n = 1 then Throws ''Target closed''
                         else Returns \<lparr>success = True, alreadyBooked = False, message = None,
                                       bookingError = None\<rparr>)\<rparr>
     = (Some \<lparr>success = True, alreadyBooked = False, message = None, bookingError = None\<rparr>,
        [Attempt 1, Close, Initialize, Attempt 2])
   \<and> bookCourt
     \<lparr>initialize_throws = (\<lambda>n. None),
      run_attempt = (\<lambda>n. if n = 1 then Throws ''Target closed'' else Throws ''Timeout'')\<rparr>
     = (Some \<lparr>success = False, alreadyBooked = False, message = None,
              bookingError = Some ''Timeout''\<rparr>,
        [Attempt 1, Close, Initialize, Attempt 2, Screenshot])
   \<and> bookCourt
     \<lparr>initialize_throws = (\<lambda>n. Some ''Login failed''),
      run_attempt = (\<lambda>n. Throws ''Target closed'')\<rparr>
     = (Some \<lparr>success = False, alreadyBooked = False, message = None,
              bookingError = Some ''Login failed''\<rparr>,
        [Attempt 1, Close, Initialize, Screenshot])
   \<and> bookCourt
     \<lparr>initialize_throws = (\<lambda>n. None),
      run_attempt = (\<lambda>n. Returns \<lparr>success = True, alreadyBooked = False, message = None,
                                    bookingError = None\<rparr>)\<rparr>
     = (Some \<lparr>success = True, alreadyBooked = False, message = None, bookingError = None\<rparr>,
        [Attempt 1])
   \<and> checkAvailability
     \<lparr>initialize_throws = (\<lambda>n. None),
      run_attempt = (\<lambda>n. if n = 1 then Throws ''Target closed''
                         else Returns \<lparr>status = available, checkedLabel = Some ''9:00 PM'',
                                       checkError = None\<rparr>)\<rparr>
     = (Some \<lparr>status = available, checkedLabel = Some ''9:00 PM'', checkError = None\<rparr>,
        [Attempt 1, Close, Initialize, Attempt 2])
   \<and> checkAvailability
     \<lparr>initialize_throws = (\<lambda>n. None),
      run_attempt = (\<lambda>n. if n = 1 then Throws ''Target closed'' else Throws ''Timeout'')\<rparr>
     = (Some \<lparr>status = error, checkedLabel = None, checkError = Some ''Timeout''\<rparr>,
        [Attempt 1, Close, Initialize, Attempt 2, Screenshot])
   \<and> checkAvailability
     \<lparr>initialize_throws = (\<lambda>n. Some ''Login failed''),
      run_attempt = (\<lambda>n. Throws ''Target closed'')\<rparr>
     = (Some \<lparr>status = error, checkedLabel = None, checkError = Some ''Login failed''\<rparr>,
        [Attempt 1, Close, Initialize, Screenshot])
   \<and> checkAvailability
     \<lparr>initialize_throws = (\<lambda>n. None),
      run_attempt = (\<lambda>n. Returns \<lparr>status = unknown, checkedLabel = Some ''9:00 PM'',
                                    checkError = None\<rparr>)\<rparr>
     = (Some \<lparr>status = unknown, checkedLabel = Some ''9:00 PM'', checkError = None\<rparr>,
        [Attempt 1])"
proof -
  let ?ok = "\<lparr>success = True, alreadyBooked = False, message = None, bookingError = None\<rparr>"
  let ?av = "\<lparr>status = available, checkedLabel = Some ''9:00 PM'', checkError = None\<rparr>"
  let ?un = "\<lparr>status = unknown, checkedLabel = Some ''9:00 PM'', checkError = None\<rparr>"
  have a: "bookCourt
      \<lparr>initialize_throws = (\<lambda>n. None),
       run_attempt = (\<lambda>n. if n = 1 then Throws ''Target closed'' else Returns ?ok)\<rparr>
      = (Some ?ok, [Attempt 1, Close, Initialize, Attempt 2])
    \<and> checkAvailability
      \<lparr>initialize_throws = (\<lambda>n. None),
       run_attempt = (\<lambda>n. if n = 1 then Throws ''Target closed'' else Returns ?av)\<rparr>
      = (Some ?av, [Attempt 1, Close, Initialize, Attempt 2])"
    using retry_loop_two_attempts
      [of "\<lparr>initialize_throws = (\<lambda>n. None),
            run_attempt = (\<lambda>n. if n = 1 then Throws ''Target closed'' else Returns ?ok)\<rparr>"
          _ "''Target closed''" ?ok _
          "\<lparr>initialize_throws = (\<lambda>n. None),
            run_attempt = (\<lambda>n. if n = 1 then Throws ''Target closed'' else Returns ?av)\<rparr>"
          _ ?av]
    by simp
  have b: "bookCourt
      \<lparr>initialize_throws = (\<lambda>n. None),
       run_attempt = (\<lambda>n. if n = 1 then Throws ''Target closed'' else Throws ''Timeout'')\<rparr>
      = (Some \<lparr>success = False, alreadyBooked = False, message = None,
               bookingError = Some ''Timeout''\<rparr>,
         [Attempt 1, Close, Initialize, Attempt 2, Screenshot])
    \<and> checkAvailability
      \<lparr>initialize_throws = (\<lambda>n. None),
       run_attempt = (\<lambda>n. if n = 1 then Throws ''Target closed'' else Throws ''Timeout'')\<rparr>
      = (Some \<lparr>status = error, checkedLabel = None, checkError = Some ''Timeout''\<rparr>,
         [Attempt 1, Close, Initialize, Attempt 2, Screenshot])"
    using retry_loop_two_attempts
      [of "\<lparr>initialize_throws = (\<lambda>n. None),
            run_attempt = (\<lambda>n. if n = 1 then Throws ''Target closed'' else Throws ''Timeout'')\<rparr>"
          _ "''Target closed''" _ "''Timeout''"
          "\<lparr>initialize_throws = (\<lambda>n. None),
            run_attempt = (\<lambda>n. if n = 1 then Throws ''Target closed'' else Throws ''Timeout'')\<rparr>"]
    by simp
  have c: "bookCourt
      \<lparr>initialize_throws = (\<lambda>n. Some ''Login failed''),
       run_attempt = (\<lambda>n. Throws ''Target closed'')\<rparr>
      = (Some \<lparr>success = False, alreadyBooked = False, message = None,
               bookingError = Some ''Login failed''\<rparr>,
         [Attempt 1, Close, Initialize, Screenshot])
    \<and> checkAvailability
      \<lparr>initialize_throws = (\<lambda>n. Some ''Login failed''),
       run_attempt = (\<lambda>n. Throws ''Target closed'')\<rparr>
      = (Some \<lparr>status = error, checkedLabel = None, checkError = Some ''Login failed''\<rparr>,
         [Attempt 1, Close, Initialize, Screenshot])"
    using retry_loop_two_attempts
      [of "\<lparr>initialize_throws = (\<lambda>n. Some ''Login failed''),
            run_attempt = (\<lambda>n. Throws ''Target closed'')\<rparr>"
          _ "''Target closed''" _ "''Login failed''"
          "\<lparr>initialize_throws = (\<lambda>n. Some ''Login failed''),
            run_attempt = (\<lambda>n. Throws ''Target closed'')\<rparr>"]
    by simp
  have d: "bookCourt
      \<lparr>initialize_throws = (\<lambda>n. None), run_attempt = (\<lambda>n. Returns ?ok)\<rparr>
      = (Some ?ok, [Attempt 1])
    \<and> checkAvailability
      \<lparr>initialize_throws = (\<lambda>n. None), run_attempt = (\<lambda>n. Returns ?un)\<rparr>
      = (Some ?un, [Attempt 1])"
    using retry_loop_two_attempts
      [of "\<lparr>initialize_throws = (\<lambda>n. None), run_attempt = (\<lambda>n. Returns ?ok)\<rparr>"
          ?ok _ _ _
          "\<lparr>initialize_throws = (\<lambda>n. None), run_attempt = (\<lambda>n. Returns ?un)\<rparr>" ?un]
    by simp
  from a b c d show ?thesis by blast
qed

section \<open>Directed navigation\<close>

lemma navigate_loop_bounds:
  assumes "attempts \<le> 90" "length cs \<le> attempts"
  shows "rounds (navigate_loop page gameDate attempts cs) \<le> 90 \<and>
         length (clicks (navigate_loop page gameDate attempts cs)) \<le> rounds (navigate_loop page gameDate attempts cs)"
  using assms
proof (induction page gameDate attempts cs rule: navigate_loop.induct)
  case (1 page gameDate attempts cs)
  show ?case
  proof (cases "attempts < 90")
    case False
    with "1.prems" show ?thesis by (subst (1 2 3) navigate_loop.simps) simp
  next
    case True
    show ?thesis
    proof (cases "dateTextMatches (dateText page attempts) (buildDatePatterns gameDate)")
      case True
      with \<open>attempts < 90\<close> "1.prems" show ?thesis
        by (simp add: navigate_loop.simps[of page gameDate attempts cs])
    next
      case False
      define dir where "dir = step_direction gameDate (dateText page attempts)"
      show ?thesis
      proof (cases "click_throws page attempts dir")
        case True
        with False \<open>attempts < 90\<close> "1.prems" show ?thesis
          by (simp add: navigate_loop.simps[of page gameDate attempts cs] dir_def Let_def)
      next
        case nothrow: False
        have eq: "navigate_loop page gameDate attempts cs = navigate_loop page gameDate (attempts + 1) (cs @ [dir])"
          using False nothrow \<open>attempts < 90\<close>
          by (simp add: navigate_loop.simps[of page gameDate attempts cs] dir_def Let_def)
        have "rounds (navigate_loop page gameDate (attempts + 1) (cs @ [dir])) \<le> 90 \<and>
         length (clicks (navigate_loop page gameDate (attempts + 1) (cs @ [dir]))) \<le> rounds (navigate_loop page gameDate (attempts + 1) (cs @ [dir]))"
          using "1.IH"[OF \<open>attempts < 90\<close> refl False dir_def nothrow] "1.prems" \<open>attempts < 90\<close>
          by simp
        then show ?thesis by (simp add: eq)
      qed
    qed
  qed
qed


lemma navigate_loop_step:
  assumes "attempts < 90" "\<not> dateTextMatches (dateText page attempts) (buildDatePatterns gameDate)"
  shows "\<exists>dir. navigate_loop page gameDate attempts cs =
           (if click_throws page attempts dir
            then \<lparr>confirmed = False, rounds = attempts + 1, clicks = cs @ [dir]\<rparr>
            else navigate_loop page gameDate (attempts + 1) (cs @ [dir]))"
  using assms
  by (intro exI[of _ "step_direction gameDate (dateText page attempts)"])
     (subst navigate_loop.simps, simp add: Let_def)

lemma navigate_loop_unconfirmed:
  assumes "\<forall>k. attempts \<le> k \<and> k < 90 \<longrightarrow>
             \<not> dateTextMatches (dateText page k) (buildDatePatterns gameDate)"
  shows "\<not> confirmed (navigate_loop page gameDate attempts cs)"
  using assms
proof (induction "90 - attempts" arbitrary: attempts cs)
  case 0
  then have "\<not> attempts < 90" by simp
  then show ?case by (subst navigate_loop.simps) simp
next
  case (Suc n)
  then have lt: "attempts < 90" by simp
  with Suc.prems have nm: "\<not> dateTextMatches (dateText page attempts) (buildDatePatterns gameDate)"
    by simp
  from navigate_loop_step[OF lt nm, of cs] obtain dir where
    st: "navigate_loop page gameDate attempts cs =
           (if click_throws page attempts dir
            then \<lparr>confirmed = False, rounds = attempts + 1, clicks = cs @ [dir]\<rparr>
            else navigate_loop page gameDate (attempts + 1) (cs @ [dir]))" by blast
  have "n = 90 - (attempts + 1)" using Suc.hyps(2) by simp
  from Suc.hyps(1)[OF this, of "cs @ [dir]"] Suc.prems
  have "\<not> confirmed (navigate_loop page gameDate (attempts + 1) (cs @ [dir]))" by simp
  then show ?case by (simp add: st)
qed

lemma navigate_loop_full:
  assumes "\<forall>k. attempts \<le> k \<and> k < 90 \<longrightarrow>
             \<not> dateTextMatches (dateText page k) (buildDatePatterns gameDate)"
    and "\<forall>k d. attempts \<le> k \<and> k < 90 \<longrightarrow> \<not> click_throws page k d"
    and "attempts \<le> 90"
  shows "rounds (navigate_loop page gameDate attempts cs) = 90 \<and>
         length (clicks (navigate_loop page gameDate attempts cs)) = length cs + (90 - attempts)"
  using assms
proof (induction "90 - attempts" arbitrary: attempts cs)
  case 0
  then have "attempts = 90" by simp
  then show ?case by (subst (1 2) navigate_loop.simps) simp
next
  case (Suc n)
  then have lt: "attempts < 90" by simp
  with Suc.prems have nm: "\<not> dateTextMatches (dateText page attempts) (buildDatePatterns gameDate)"
    by simp
  from navigate_loop_step[OF lt nm, of cs] obtain dir where
    st: "navigate_loop page gameDate attempts cs =
           (if click_throws page attempts dir
            then \<lparr>confirmed = False, rounds = attempts + 1, clicks = cs @ [dir]\<rparr>
            else navigate_loop page gameDate (attempts + 1) (cs @ [dir]))" by blast
  have nt: "\<not> click_throws page attempts dir" using Suc.prems(2) lt by simp
  have "n = 90 - (attempts + 1)" using Suc.hyps(2) by simp
  from Suc.hyps(1)[OF this, of "cs @ [dir]"] Suc.prems lt
  have "rounds (navigate_loop page gameDate (attempts + 1) (cs @ [dir])) = 90 \<and>
        length (clicks (navigate_loop page gameDate (attempts + 1) (cs @ [dir])))
          = length (cs @ [dir]) + (90 - (attempts + 1))" by simp
  then show ?case using lt by (simp add: st nt)
qed

lemma navigate_loop_click_stops:
  assumes "attempts \<le> j" "j < 90"
    and "\<forall>k. attempts \<le> k \<and> k \<le> j \<longrightarrow>
             \<not> dateTextMatches (dateText page k) (buildDatePatterns gameDate)"
    and "\<forall>k d. attempts \<le> k \<and> k < j \<longrightarrow> \<not> click_throws page k d"
    and "\<forall>d. click_throws page j d"
  shows "rounds (navigate_loop page gameDate attempts cs) = j + 1 \<and>
         \<not> confirmed (navigate_loop page gameDate attempts cs)"
  using assms
proof (induction "j - attempts" arbitrary: attempts cs)
  case 0
  then have eq: "attempts = j" by simp
  with "0.prems" have nm: "\<not> dateTextMatches (dateText page attempts) (buildDatePatterns gameDate)"
    and lt: "attempts < 90" by simp_all
  from navigate_loop_step[OF lt nm, of cs] "0.prems"(5) eq show ?case by auto
next
  case (Suc n)
  then have lt: "attempts < 90" and ltj: "attempts < j" by simp_all
  with Suc.prems have nm: "\<not> dateTextMatches (dateText page attempts) (buildDatePatterns gameDate)"
    by simp
  from navigate_loop_step[OF lt nm, of cs] obtain dir where
    st: "navigate_loop page gameDate attempts cs =
           (if click_throws page attempts dir
            then \<lparr>confirmed = False, rounds = attempts + 1, clicks = cs @ [dir]\<rparr>
            else navigate_loop page gameDate (attempts + 1) (cs @ [dir]))" by blast
  have nt: "\<not> click_throws page attempts dir" using Suc.prems(4) ltj by simp
  have "n = j - (attempts + 1)" using Suc.hyps(2) by simp
  from Suc.hyps(1)[OF this, of "cs @ [dir]"] Suc.prems ltj
  have "rounds (navigate_loop page gameDate (attempts + 1) (cs @ [dir])) = j + 1 \<and>
         \<not> confirmed (navigate_loop page gameDate (attempts + 1) (cs @ [dir]))" by simp
  then show ?case by (simp add: st nt)
qed

text \<open>
  Claim C7. The navigation loop returns for every page: it enters its body at most 90
  times and clicks at most 90 times. When no reading shows the target date it returns
  without confirming the date: after exactly 90 rounds when every click succeeds, and
  right after round \<open>j + 1\<close> when the click of that round is the first to throw.
\<close>

theorem navigation_terminates:
  "rounds (navigateSchedulerToDate page gameDate) \<le> 90
   \<and> length (clicks (navigateSchedulerToDate page gameDate)) \<le> 90
   \<and> (never_matches page gameDate \<longrightarrow> \<not> confirmed (navigateSchedulerToDate page gameDate))
   \<and> (never_matches page gameDate \<longrightarrow> (\<forall>k<90. \<forall>d. \<not> click_throws page k d) \<longrightarrow>
        rounds (navigateSchedulerToDate page gameDate) = 90 \<and>
        length (clicks (navigateSchedulerToDate page gameDate)) = 90)
   \<and> (never_matches page gameDate \<longrightarrow> j < 90 \<longrightarrow>
        (\<forall>k<j. \<forall>d. \<not> click_throws page k d) \<longrightarrow> (\<forall>d. click_throws page j d) \<longrightarrow>
        rounds (navigateSchedulerToDate page gameDate) = j + 1 \<and>
        \<not> confirmed (navigateSchedulerToDate page gameDate))"
proof -
  have b: "rounds (navigateSchedulerToDate page gameDate) \<le> 90 \<and>
     length (clicks (navigateSchedulerToDate page gameDate))
       \<le> rounds (navigateSchedulerToDate page gameDate)"
    unfolding navigateSchedulerToDate_def by (rule navigate_loop_bounds) simp_all
  have u: "\<not> confirmed (navigateSchedulerToDate page gameDate)" if "never_matches page gameDate"
    unfolding navigateSchedulerToDate_def
    by (rule navigate_loop_unconfirmed) (use that in \<open>simp add: never_matches_def\<close>)
  have f: "rounds (navigateSchedulerToDate page gameDate) = 90 \<and>
        length (clicks (navigateSchedulerToDate page gameDate)) = 90"
    if "never_matches page gameDate" "\<forall>k<90. \<forall>d. \<not> click_throws page k d"
    using navigate_loop_full[of 0 page gameDate "[]"] that
    by (simp add: navigateSchedulerToDate_def never_matches_def)
  have c: "rounds (navigateSchedulerToDate page gameDate) = j + 1 \<and>
        \<not> confirmed (navigateSchedulerToDate page gameDate)"
    if "never_matches page gameDate" "j < 90" "\<forall>k<j. \<forall>d. \<not> click_throws page k d"
       "\<forall>d. click_throws page j d"
    using navigate_loop_click_stops[of 0 j page gameDate "[]"] that
    by (simp add: navigateSchedulerToDate_def never_matches_def)
  from b u f c show ?thesis by auto
qed

theorem navigation_terminates_witness:
  "never_matches \<lparr>dateText = (\<lambda>k. ''Loading''), click_throws = (\<lambda>k d. False)\<rparr>
     \<lparr>year = 2026, month = 2, day = 6, msOfDay = 0\<rparr>
   \<and> rounds (navigateSchedulerToDate \<lparr>dateText = (\<lambda>k. ''Loading''), click_throws = (\<lambda>k d. False)\<rparr>
        \<lparr>year = 2026, month = 2, day = 6, msOfDay = 0\<rparr>) = 90
   \<and> \<not> confirmed (navigateSchedulerToDate \<lparr>dateText = (\<lambda>k. ''Loading''), click_throws = (\<lambda>k d. False)\<rparr>
        \<lparr>year = 2026, month = 2, day = 6, msOfDay = 0\<rparr>)
   \<and> never_matches \<lparr>dateText = (\<lambda>k. ''Loading''), click_throws = (\<lambda>k d. k = 4)\<rparr>
     \<lparr>year = 2026, month = 2, day = 6, msOfDay = 0\<rparr>
   \<and> rounds (navigateSchedulerToDate \<lparr>dateText = (\<lambda>k. ''Loading''), click_throws = (\<lambda>k d. k = 4)\<rparr>
        \<lparr>year = 2026, month = 2, day = 6, msOfDay = 0\<rparr>) = 5"
proof -
  have n: "never_matches \<lparr>dateText = (\<lambda>k. ''Loading''), click_throws = ct\<rparr>
     \<lparr>year = 2026, month = 2, day = 6, msOfDay = 0\<rparr>" for ct
    by (simp add: nav_eval char_eval)
  from navigation_terminates[of "\<lparr>dateText = (\<lambda>k. ''Loading''), click_throws = (\<lambda>k d. False)\<rparr>"
            "\<lparr>year = 2026, month = 2, day = 6, msOfDay = 0\<rparr>" 0]
       navigation_terminates[of "\<lparr>dateText = (\<lambda>k. ''Loading''), click_throws = (\<lambda>k d. k = 4)\<rparr>"
            "\<lparr>year = 2026, month = 2, day = 6, msOfDay = 0\<rparr>" 4] n
  show ?thesis by simp
qed


end
